theory Spec2Isabelle
  imports Complex_Main "HOL-Library.Word"
begin

section \<open>Machine types of the contract\<close>

text \<open>
  The contract \<open>LoanAmortizationFHE\<close> (the Solidity part of \<open>App.tsx\<close>) works on
  \<open>uint256\<close> identifiers, \<open>uint32\<close> plaintexts, addresses and byte strings.
\<close>

type_synonym uint256 = "256 word"
type_synonym uint32 = "32 word"
type_synonym address = "160 word"
type_synonym bytes = "8 word list"

section \<open>The encrypted-integer engine\<close>

text \<open>
  Modelled from the spec: the library \<open>@fhevm/solidity/lib/FHE.sol\<close> is imported by the
  contract and is not part of the sources. Section 8 of the specification fixes the meaning
  of every operation through the plaintext it decrypts to, so a handle \<open>euint32\<close> is
  represented by the 32-bit plaintext it encrypts: \<open>add\<close>, \<open>sub\<close> and \<open>mul\<close> wrap modulo
  \<open>2 ^ 32\<close>, \<open>div\<close> is truncating unsigned division and answers a fixed sentinel, the
  maximum representable value, for a zero divisor, \<open>pow\<close> is the wrapping power, \<open>gt\<close> is
  the unsigned comparison and \<open>cmux\<close> selects its first operand when the condition is true.
  A handle read from zero-initialised storage is the plaintext \<open>0\<close>.
\<close>

type_synonym euint32 = "32 word"
type_synonym ebool = bool

definition FHE_asEuint32 :: "uint32 \<Rightarrow> euint32" where
  "FHE_asEuint32 v = v"

definition FHE_add :: "euint32 \<Rightarrow> euint32 \<Rightarrow> euint32" where
  "FHE_add a b = a + b"

definition FHE_sub :: "euint32 \<Rightarrow> euint32 \<Rightarrow> euint32" where
  "FHE_sub a b = a - b"

definition FHE_mul :: "euint32 \<Rightarrow> euint32 \<Rightarrow> euint32" where
  "FHE_mul a b = a * b"

definition div_sentinel :: uint32 where
  "div_sentinel = 4294967295"

definition FHE_div :: "euint32 \<Rightarrow> euint32 \<Rightarrow> euint32" where
  "FHE_div a b = (if b = 0 then div_sentinel else a div b)"

definition FHE_pow :: "euint32 \<Rightarrow> euint32 \<Rightarrow> euint32" where
  "FHE_pow a b = a ^ unat b"

definition FHE_gt :: "euint32 \<Rightarrow> euint32 \<Rightarrow> ebool" where
  "FHE_gt a b = (b < a)"

definition FHE_cmux :: "ebool \<Rightarrow> euint32 \<Rightarrow> euint32 \<Rightarrow> euint32" where
  "FHE_cmux c a b = (if c then a else b)"

text \<open>
  Modelled from the spec: \<open>FHE.checkSignatures\<close> belongs to the same library. It reverts
  unless the proof authenticates the cleartexts for the request; the signature scheme of the
  decryption oracle is a parameter of the model.
\<close>

type_synonym verifier = "uint256 \<Rightarrow> bytes \<Rightarrow> bytes \<Rightarrow> bool"

definition FHE_checkSignatures :: "verifier \<Rightarrow> uint256 \<Rightarrow> bytes \<Rightarrow> bytes \<Rightarrow> bool" where
  "FHE_checkSignatures vf requestId cleartexts proof = vf requestId cleartexts proof"

section \<open>ABI coding of the oracle's answer\<close>

text \<open>
  \<open>abi.decode(cleartexts, (uint32, uint32, uint32))\<close> reads three big-endian words of 32
  bytes each and reverts when the data is shorter than 96 bytes or when a word does not fit
  into 32 bits.
\<close>

definition be_nat :: "bytes \<Rightarrow> nat" where
  "be_nat bs = foldl (\<lambda>acc b. acc * 256 + unat b) 0 bs"

definition abi_decode_uint32 :: "bytes \<Rightarrow> uint32 option" where
  "abi_decode_uint32 w = (if be_nat w < 4294967296 then Some (of_nat (be_nat w)) else None)"

definition abi_decode3 :: "bytes \<Rightarrow> (uint32 \<times> uint32 \<times> uint32) option" where
  "abi_decode3 ct =
     (if length ct < 96 then None
      else case abi_decode_uint32 (take 32 ct) of
             None \<Rightarrow> None
           | Some a \<Rightarrow>
               (case abi_decode_uint32 (take 32 (drop 32 ct)) of
                  None \<Rightarrow> None
                | Some b \<Rightarrow>
                    (case abi_decode_uint32 (take 32 (drop 64 ct)) of
                       None \<Rightarrow> None
                     | Some c \<Rightarrow> Some (a, b, c))))"

text \<open>The encoding the oracle sends: each value left-padded to 32 bytes.\<close>

definition abi_encode_uint32 :: "uint32 \<Rightarrow> bytes" where
  "abi_encode_uint32 v =
     replicate 28 0 @
     [of_nat (unat v div 16777216 mod 256), of_nat (unat v div 65536 mod 256),
      of_nat (unat v div 256 mod 256), of_nat (unat v mod 256)]"

definition abi_encode3 :: "uint32 \<Rightarrow> uint32 \<Rightarrow> uint32 \<Rightarrow> bytes" where
  "abi_encode3 a b c = abi_encode_uint32 a @ abi_encode_uint32 b @ abi_encode_uint32 c"

section \<open>Storage of the contract\<close>

text \<open>
  The structs of the contract. The field \<open>id\<close> of \<open>EncryptedLoan\<close> is \<open>loan_id\<close> here,
  since \<open>id\<close> is the identity function of HOL.
\<close>

record EncryptedLoan =
  loan_id :: uint256
  borrower :: address
  encryptedPrincipal :: euint32
  encryptedInterestRate :: euint32
  encryptedTerm :: euint32
  encryptedExtraPayment :: euint32
  timestamp :: uint256

record AmortizationSchedule =
  encryptedMonthlyPayment :: euint32
  encryptedTotalInterest :: euint32
  encryptedPayoffTime :: euint32
  isCalculated :: bool

record DecryptedSchedule =
  monthlyPayment :: uint32
  totalInterest :: uint32
  payoffTime :: uint32
  isRevealed :: bool

datatype event =
    LoanSubmitted uint256 address
  | ScheduleCalculated uint256
  | ScheduleDecrypted uint256

text \<open>
  A Solidity mapping is total: a key that was never written reads as the zero value of its
  type. The log of emitted events is kept with the storage.
\<close>

record contract =
  loanCount :: uint256
  encryptedLoans :: "uint256 \<Rightarrow> EncryptedLoan"
  amortizationSchedules :: "uint256 \<Rightarrow> AmortizationSchedule"
  decryptedSchedules :: "uint256 \<Rightarrow> DecryptedSchedule"
  borrowerLoans :: "address \<Rightarrow> uint256 list"
  financialAdvisors :: "address \<Rightarrow> bool"
  requestToLoanId :: "uint256 \<Rightarrow> uint256"
  platformAdmin :: address
  events :: "event list"

definition zero_loan :: EncryptedLoan where
  "zero_loan = \<lparr>loan_id = 0, borrower = 0, encryptedPrincipal = 0, encryptedInterestRate = 0,
      encryptedTerm = 0, encryptedExtraPayment = 0, timestamp = 0\<rparr>"

definition zero_schedule :: AmortizationSchedule where
  "zero_schedule = \<lparr>encryptedMonthlyPayment = 0, encryptedTotalInterest = 0,
      encryptedPayoffTime = 0, isCalculated = False\<rparr>"

definition zero_decrypted :: DecryptedSchedule where
  "zero_decrypted = \<lparr>monthlyPayment = 0, totalInterest = 0, payoffTime = 0,
      isRevealed = False\<rparr>"

text \<open>
  The failures of a call. Each \<open>require\<close> of the contract reverts with a message; the
  constructors carry the names of the specification's error taxonomy:
  \<open>NotAdmin\<close> is "Not admin", \<open>NotAdvisor\<close> is "Not authorized", \<open>AlreadyCalculated\<close> is
  "Already calculated", \<open>Unauthorized\<close> is "Not borrower", \<open>AlreadyRevealed\<close> is
  "Already decrypted", \<open>NotCalculated\<close> is "Schedule not calculated", \<open>UnknownRequest\<close> is
  "Invalid request", \<open>InvalidProof\<close> is the revert of \<open>FHE.checkSignatures\<close>,
  \<open>Overflow\<close> is the arithmetic panic of checked \<open>uint256\<close> addition and \<open>DecodeFailure\<close>
  the revert of \<open>abi.decode\<close>. A reverted call changes nothing, so a failure carries no
  state.
\<close>

datatype error =
    NotAdmin
  | NotAdvisor
  | AlreadyCalculated
  | Unauthorized
  | AlreadyRevealed
  | NotCalculated
  | UnknownRequest
  | InvalidProof
  | Overflow
  | DecodeFailure

section \<open>State-changing functions\<close>

definition constructor :: "address \<Rightarrow> contract" where
  "constructor sender =
     \<lparr>loanCount = 0, encryptedLoans = (\<lambda>_. zero_loan),
      amortizationSchedules = (\<lambda>_. zero_schedule),
      decryptedSchedules = (\<lambda>_. zero_decrypted), borrowerLoans = (\<lambda>_. []),
      financialAdvisors = (\<lambda>_. False), requestToLoanId = (\<lambda>_. 0),
      platformAdmin = sender, events = []\<rparr>"

definition authorizeAdvisor :: "address \<Rightarrow> contract \<Rightarrow> address \<Rightarrow> error + contract" where
  "authorizeAdvisor sender s advisor =
     (if sender \<noteq> platformAdmin s then Inl NotAdmin
      else Inr (s\<lparr>financialAdvisors := (financialAdvisors s)(advisor := True)\<rparr>))"

text \<open>\<open>now\<close> is \<open>block.timestamp\<close>; \<open>loanCount += 1\<close> is checked arithmetic.\<close>

definition submitEncryptedLoan ::
  "address \<Rightarrow> uint256 \<Rightarrow> contract \<Rightarrow> euint32 \<Rightarrow> euint32 \<Rightarrow> euint32 \<Rightarrow> euint32 \<Rightarrow> error + contract"
where
  "submitEncryptedLoan sender now s ePrincipal eRate eTerm eExtra =
     (if loanCount s = - 1 then Inl Overflow
      else
        let newId = loanCount s + 1 in
        Inr (s\<lparr>loanCount := newId,
               encryptedLoans := (encryptedLoans s)(newId :=
                 \<lparr>loan_id = newId, borrower = sender, encryptedPrincipal = ePrincipal,
                  encryptedInterestRate = eRate, encryptedTerm = eTerm,
                  encryptedExtraPayment = eExtra, timestamp = now\<rparr>),
               amortizationSchedules := (amortizationSchedules s)(newId :=
                 \<lparr>encryptedMonthlyPayment = FHE_asEuint32 0,
                  encryptedTotalInterest = FHE_asEuint32 0,
                  encryptedPayoffTime = FHE_asEuint32 0, isCalculated = False\<rparr>),
               decryptedSchedules := (decryptedSchedules s)(newId :=
                 \<lparr>monthlyPayment = 0, totalInterest = 0, payoffTime = 0,
                  isRevealed = False\<rparr>),
               borrowerLoans := (borrowerLoans s)(sender := borrowerLoans s sender @ [newId]),
               events := events s @ [LoanSubmitted newId sender]\<rparr>))"

definition calculateAmortization :: "address \<Rightarrow> contract \<Rightarrow> uint256 \<Rightarrow> error + contract" where
  "calculateAmortization sender s loanId =
     (if \<not> financialAdvisors s sender then Inl NotAdvisor
      else
        let loan = encryptedLoans s loanId in
        if isCalculated (amortizationSchedules s loanId) then Inl AlreadyCalculated
        else
          let monthlyRate = FHE_div (encryptedInterestRate loan) (FHE_asEuint32 1200);
              numerator = FHE_mul (FHE_mul (encryptedPrincipal loan) monthlyRate)
                            (FHE_pow (FHE_add (FHE_asEuint32 1) monthlyRate) (encryptedTerm loan));
              denominator = FHE_sub
                            (FHE_pow (FHE_add (FHE_asEuint32 1) monthlyRate) (encryptedTerm loan))
                            (FHE_asEuint32 1);
              monthlyPayment = FHE_div numerator denominator;
              totalPayment = FHE_mul monthlyPayment (encryptedTerm loan);
              totalInterest = FHE_sub totalPayment (encryptedPrincipal loan);
              extraPayment = encryptedExtraPayment loan;
              effectivePayment = FHE_add monthlyPayment extraPayment;
              payoffTime = FHE_div (encryptedPrincipal loan) effectivePayment
          in Inr (s\<lparr>amortizationSchedules := (amortizationSchedules s)(loanId :=
                      \<lparr>encryptedMonthlyPayment = monthlyPayment,
                       encryptedTotalInterest = totalInterest,
                       encryptedPayoffTime = payoffTime, isCalculated = True\<rparr>),
                    events := events s @ [ScheduleCalculated loanId]\<rparr>))"

text \<open>
  \<open>reqId\<close> is the identifier that \<open>FHE.requestDecryption\<close> returns for the three handles
  of the schedule; the oracle chooses it.
\<close>

definition requestScheduleDecryption ::
  "address \<Rightarrow> uint256 \<Rightarrow> contract \<Rightarrow> uint256 \<Rightarrow> error + contract"
where
  "requestScheduleDecryption sender reqId s loanId =
     (if borrower (encryptedLoans s loanId) \<noteq> sender then Inl Unauthorized
      else if isRevealed (decryptedSchedules s loanId) then Inl AlreadyRevealed
      else if \<not> isCalculated (amortizationSchedules s loanId) then Inl NotCalculated
      else Inr (s\<lparr>requestToLoanId := (requestToLoanId s)(reqId := loanId)\<rparr>))"

definition decryptAmortizationSchedule ::
  "verifier \<Rightarrow> address \<Rightarrow> contract \<Rightarrow> uint256 \<Rightarrow> bytes \<Rightarrow> bytes \<Rightarrow> error + contract"
where
  "decryptAmortizationSchedule vf sender s requestId cleartexts proof =
     (let loanId = requestToLoanId s requestId in
      if loanId = 0 then Inl UnknownRequest
      else if \<not> isCalculated (amortizationSchedules s loanId) then Inl NotCalculated
      else if isRevealed (decryptedSchedules s loanId) then Inl AlreadyRevealed
      else if \<not> FHE_checkSignatures vf requestId cleartexts proof then Inl InvalidProof
      else case abi_decode3 cleartexts of
             None \<Rightarrow> Inl DecodeFailure
           | Some (mp, ti, pt) \<Rightarrow>
               Inr (s\<lparr>decryptedSchedules := (decryptedSchedules s)(loanId :=
                        \<lparr>monthlyPayment = mp, totalInterest = ti, payoffTime = pt,
                         isRevealed = True\<rparr>),
                      events := events s @ [ScheduleDecrypted loanId]\<rparr>))"

definition protectFinancialPrivacy :: "address \<Rightarrow> contract \<Rightarrow> address \<Rightarrow> error + contract" where
  "protectFinancialPrivacy sender s b =
     (if sender \<noteq> platformAdmin s then Inl NotAdmin else Inr s)"

section \<open>Read-only analytic functions\<close>

text \<open>
  A view function returns a handle or reverts. Where one view function calls another, the
  revert of the callee is the revert of the caller.
\<close>

definition and_then :: "error + 'a \<Rightarrow> ('a \<Rightarrow> error + 'b) \<Rightarrow> error + 'b" where
  "and_then r f = (case r of Inl e \<Rightarrow> Inl e | Inr v \<Rightarrow> f v)"

definition calculateInterestSavings :: "contract \<Rightarrow> uint256 \<Rightarrow> error + euint32" where
  "calculateInterestSavings s loanId =
     (let loan = encryptedLoans s loanId; schedule = amortizationSchedules s loanId in
      if \<not> isCalculated schedule then Inl NotCalculated
      else
        let baseTotalInterest = encryptedTotalInterest schedule;
            extraPayment = encryptedExtraPayment loan;
            effectivePayment = FHE_add (encryptedMonthlyPayment schedule) extraPayment;
            payoffTime = encryptedPayoffTime schedule;
            totalPaymentWithExtra = FHE_mul effectivePayment payoffTime;
            totalInterestWithExtra = FHE_sub totalPaymentWithExtra (encryptedPrincipal loan)
        in Inr (FHE_sub baseTotalInterest totalInterestWithExtra))"

definition calculateAffordability :: "contract \<Rightarrow> uint256 \<Rightarrow> error + euint32" where
  "calculateAffordability s loanId =
     (let loan = encryptedLoans s loanId; schedule = amortizationSchedules s loanId in
      if \<not> isCalculated schedule then Inl NotCalculated
      else
        let estimatedIncome = FHE_div (encryptedPrincipal loan) (FHE_asEuint32 10);
            disposableIncome = FHE_sub estimatedIncome (encryptedMonthlyPayment schedule)
        in Inr (FHE_div (FHE_mul disposableIncome (FHE_asEuint32 100)) estimatedIncome))"

definition optimizePaymentStrategy :: "contract \<Rightarrow> uint256 \<Rightarrow> error + euint32" where
  "optimizePaymentStrategy s loanId =
     (let loan = encryptedLoans s loanId; schedule = amortizationSchedules s loanId in
      if \<not> isCalculated schedule then Inl NotCalculated
      else
        and_then (calculateInterestSavings s loanId) (\<lambda>savings.
          let savingsRatio = FHE_div (FHE_mul savings (FHE_asEuint32 100))
                               (encryptedTotalInterest schedule)
          in Inr (FHE_cmux (FHE_gt savingsRatio (FHE_asEuint32 15))
                    (FHE_add (encryptedExtraPayment loan) (FHE_asEuint32 100))
                    (encryptedExtraPayment loan))))"

definition calculateDebtToIncome :: "contract \<Rightarrow> uint256 \<Rightarrow> error + euint32" where
  "calculateDebtToIncome s loanId =
     (let loan = encryptedLoans s loanId; schedule = amortizationSchedules s loanId in
      if \<not> isCalculated schedule then Inl NotCalculated
      else
        let estimatedIncome = FHE_div (encryptedPrincipal loan) (FHE_asEuint32 10)
        in Inr (FHE_div (FHE_mul (encryptedMonthlyPayment schedule) (FHE_asEuint32 100))
                  estimatedIncome))"

definition estimateEarlyPayoffImpact :: "contract \<Rightarrow> uint256 \<Rightarrow> euint32 \<Rightarrow> error + euint32" where
  "estimateEarlyPayoffImpact s loanId additionalPayment =
     (let loan = encryptedLoans s loanId; schedule = amortizationSchedules s loanId in
      if \<not> isCalculated schedule then Inl NotCalculated
      else
        let newExtraPayment = FHE_add (encryptedExtraPayment loan) additionalPayment;
            effectivePayment = FHE_add (encryptedMonthlyPayment schedule) newExtraPayment;
            newPayoffTime = FHE_div (encryptedPrincipal loan) effectivePayment;
            totalPayment = FHE_mul effectivePayment newPayoffTime;
            totalInterest = FHE_sub totalPayment (encryptedPrincipal loan)
        in Inr (FHE_sub (encryptedTotalInterest schedule) totalInterest))"

definition calculateLoanHealth :: "contract \<Rightarrow> uint256 \<Rightarrow> error + euint32" where
  "calculateLoanHealth s loanId =
     and_then (calculateDebtToIncome s loanId) (\<lambda>dti.
     and_then (calculateAffordability s loanId) (\<lambda>affordability.
       Inr (FHE_div (FHE_add (FHE_sub (FHE_asEuint32 100) dti) affordability)
              (FHE_asEuint32 2))))"

definition calculateRefinancingBenefit :: "contract \<Rightarrow> uint256 \<Rightarrow> euint32 \<Rightarrow> error + euint32" where
  "calculateRefinancingBenefit s loanId newRate =
     (let loan = encryptedLoans s loanId; schedule = amortizationSchedules s loanId in
      if \<not> isCalculated schedule then Inl NotCalculated
      else
        let newMonthlyRate = FHE_div newRate (FHE_asEuint32 1200);
            newMonthlyPayment = FHE_div
              (FHE_mul (FHE_mul (encryptedPrincipal loan) newMonthlyRate)
                 (FHE_pow (FHE_add (FHE_asEuint32 1) newMonthlyRate) (encryptedTerm loan)))
              (FHE_sub
                 (FHE_pow (FHE_add (FHE_asEuint32 1) newMonthlyRate) (encryptedTerm loan))
                 (FHE_asEuint32 1));
            newTotalInterest = FHE_sub (FHE_mul newMonthlyPayment (encryptedTerm loan))
                                 (encryptedPrincipal loan)
        in Inr (FHE_sub (encryptedTotalInterest schedule) newTotalInterest))"

definition calculatePaymentShockRisk :: "contract \<Rightarrow> uint256 \<Rightarrow> error + euint32" where
  "calculatePaymentShockRisk s loanId =
     (let schedule = amortizationSchedules s loanId in
      if \<not> isCalculated schedule then Inl NotCalculated
      else Inr (FHE_div (FHE_mul (encryptedMonthlyPayment schedule) (FHE_asEuint32 100))
                  (encryptedPrincipal (encryptedLoans s loanId))))"

definition optimizeForGoals :: "contract \<Rightarrow> uint256 \<Rightarrow> euint32 \<Rightarrow> error + euint32" where
  "optimizeForGoals s loanId goalTime =
     (let loan = encryptedLoans s loanId; schedule = amortizationSchedules s loanId in
      if \<not> isCalculated schedule then Inl NotCalculated
      else Inr (FHE_div (encryptedPrincipal loan) goalTime))"

definition calculateInterestSensitivity :: "contract \<Rightarrow> uint256 \<Rightarrow> error + euint32" where
  "calculateInterestSensitivity s loanId =
     (let loan = encryptedLoans s loanId; schedule = amortizationSchedules s loanId in
      if \<not> isCalculated schedule then Inl NotCalculated
      else
        let rateChange = FHE_asEuint32 100;
            newRate = FHE_add (encryptedInterestRate loan) rateChange;
            newMonthlyRate = FHE_div newRate (FHE_asEuint32 1200);
            newMonthlyPayment = FHE_div
              (FHE_mul (FHE_mul (encryptedPrincipal loan) newMonthlyRate)
                 (FHE_pow (FHE_add (FHE_asEuint32 1) newMonthlyRate) (encryptedTerm loan)))
              (FHE_sub
                 (FHE_pow (FHE_add (FHE_asEuint32 1) newMonthlyRate) (encryptedTerm loan))
                 (FHE_asEuint32 1))
        in Inr (FHE_sub newMonthlyPayment (encryptedMonthlyPayment schedule)))"

definition estimateTaxBenefit :: "contract \<Rightarrow> uint256 \<Rightarrow> error + euint32" where
  "estimateTaxBenefit s loanId =
     (let schedule = amortizationSchedules s loanId in
      if \<not> isCalculated schedule then Inl NotCalculated
      else Inr (FHE_div (encryptedTotalInterest schedule) (FHE_asEuint32 4)))"

definition calculateLoanLiquidity :: "contract \<Rightarrow> uint256 \<Rightarrow> error + euint32" where
  "calculateLoanLiquidity s loanId =
     (let loan = encryptedLoans s loanId; schedule = amortizationSchedules s loanId in
      if \<not> isCalculated schedule then Inl NotCalculated
      else Inr (FHE_div (encryptedPrincipal loan)
                  (FHE_mul (encryptedMonthlyPayment schedule) (FHE_asEuint32 6))))"

definition detectOverleveraging :: "contract \<Rightarrow> uint256 \<Rightarrow> error + ebool" where
  "detectOverleveraging s loanId =
     and_then (calculateDebtToIncome s loanId) (\<lambda>dti. Inr (FHE_gt dti (FHE_asEuint32 40)))"

definition calculateFinancialFlexibility :: "contract \<Rightarrow> uint256 \<Rightarrow> error + euint32" where
  "calculateFinancialFlexibility s loanId =
     and_then (calculateAffordability s loanId) (\<lambda>affordability.
     and_then (calculateLoanHealth s loanId) (\<lambda>loanHealth.
       Inr (FHE_div (FHE_add affordability loanHealth) (FHE_asEuint32 2))))"

definition optimizeForCashFlow :: "contract \<Rightarrow> uint256 \<Rightarrow> error + euint32" where
  "optimizeForCashFlow s loanId =
     (let schedule = amortizationSchedules s loanId in
      if \<not> isCalculated schedule then Inl NotCalculated
      else Inr (FHE_div (FHE_mul (encryptedMonthlyPayment schedule) (FHE_asEuint32 90))
                  (FHE_asEuint32 100)))"

definition calculatePrepaymentRisk :: "contract \<Rightarrow> uint256 \<Rightarrow> error + euint32" where
  "calculatePrepaymentRisk s loanId =
     (let loan = encryptedLoans s loanId in
      Inr (FHE_div (FHE_mul (encryptedExtraPayment loan) (FHE_asEuint32 100))
             (encryptedPrincipal loan)))"

definition estimateNetCost :: "contract \<Rightarrow> uint256 \<Rightarrow> error + euint32" where
  "estimateNetCost s loanId =
     (let schedule = amortizationSchedules s loanId in
      if \<not> isCalculated schedule then Inl NotCalculated
      else and_then (estimateTaxBenefit s loanId) (\<lambda>taxBenefit.
             Inr (FHE_sub (encryptedTotalInterest schedule) taxBenefit)))"

definition calculateLoanEfficiency :: "contract \<Rightarrow> uint256 \<Rightarrow> error + euint32" where
  "calculateLoanEfficiency s loanId =
     (let loan = encryptedLoans s loanId; schedule = amortizationSchedules s loanId in
      if \<not> isCalculated schedule then Inl NotCalculated
      else Inr (FHE_div (FHE_mul (encryptedPrincipal loan) (FHE_asEuint32 100))
                  (FHE_add (encryptedPrincipal loan) (encryptedTotalInterest schedule))))"

definition generatePersonalizedAdvice :: "contract \<Rightarrow> uint256 \<Rightarrow> error + euint32" where
  "generatePersonalizedAdvice s loanId =
     and_then (calculateInterestSavings s loanId) (\<lambda>savings.
     and_then (calculatePaymentShockRisk s loanId) (\<lambda>risk.
       Inr (FHE_cmux (FHE_gt savings (FHE_asEuint32 1000)) (FHE_asEuint32 1)
              (FHE_cmux (FHE_gt risk (FHE_asEuint32 15)) (FHE_asEuint32 2)
                 (FHE_asEuint32 3)))))"

definition calculateDebtSustainability :: "contract \<Rightarrow> uint256 \<Rightarrow> error + euint32" where
  "calculateDebtSustainability s loanId =
     and_then (calculateDebtToIncome s loanId) (\<lambda>dti. Inr (FHE_sub (FHE_asEuint32 100) dti))"

definition estimateInflationImpact :: "contract \<Rightarrow> uint256 \<Rightarrow> error + euint32" where
  "estimateInflationImpact s loanId =
     (let schedule = amortizationSchedules s loanId in
      if \<not> isCalculated schedule then Inl NotCalculated
      else Inr (FHE_div (encryptedTotalInterest schedule) (FHE_asEuint32 2)))"

section \<open>Transactions\<close>

text \<open>
  The contract is driven by transactions: a sender and a call of one of the public
  state-changing functions. A transaction that reverts leaves the storage as it was.
  The arguments of \<open>SubmitEncryptedLoan\<close> start with \<open>block.timestamp\<close>, those of
  \<open>RequestScheduleDecryption\<close> with the identifier handed out by the oracle.
\<close>

datatype call =
    AuthorizeAdvisor address
  | SubmitEncryptedLoan uint256 euint32 euint32 euint32 euint32
  | CalculateAmortization uint256
  | RequestScheduleDecryption uint256 uint256
  | DecryptAmortizationSchedule uint256 bytes bytes
  | ProtectFinancialPrivacy address

type_synonym tx = "address \<times> call"

fun exec :: "verifier \<Rightarrow> contract \<Rightarrow> tx \<Rightarrow> error + contract" where
  "exec vf s (sender, AuthorizeAdvisor a) = authorizeAdvisor sender s a"
| "exec vf s (sender, SubmitEncryptedLoan now p r t e) = submitEncryptedLoan sender now s p r t e"
| "exec vf s (sender, CalculateAmortization loanId) = calculateAmortization sender s loanId"
| "exec vf s (sender, RequestScheduleDecryption reqId loanId) =
     requestScheduleDecryption sender reqId s loanId"
| "exec vf s (sender, DecryptAmortizationSchedule requestId cleartexts proof) =
     decryptAmortizationSchedule vf sender s requestId cleartexts proof"
| "exec vf s (sender, ProtectFinancialPrivacy b) = protectFinancialPrivacy sender s b"

definition apply_tx :: "verifier \<Rightarrow> contract \<Rightarrow> tx \<Rightarrow> contract" where
  "apply_tx vf s t = (case exec vf s t of Inl e \<Rightarrow> s | Inr s' \<Rightarrow> s')"

fun run :: "verifier \<Rightarrow> contract \<Rightarrow> tx list \<Rightarrow> contract" where
  "run vf s [] = s"
| "run vf s (t # ts) = run vf (apply_tx vf s t) ts"

text \<open>The transactions of a sequence that did not revert, in order.\<close>

fun successes :: "verifier \<Rightarrow> contract \<Rightarrow> tx list \<Rightarrow> tx list" where
  "successes vf s [] = []"
| "successes vf s (t # ts) =
     (case exec vf s t of
        Inl e \<Rightarrow> successes vf s ts
      | Inr s' \<Rightarrow> t # successes vf s' ts)"

definition calc_successes :: "verifier \<Rightarrow> contract \<Rightarrow> uint256 \<Rightarrow> tx list \<Rightarrow> nat" where
  "calc_successes vf s loanId ts =
     length (filter (\<lambda>t. snd t = CalculateAmortization loanId) (successes vf s ts))"

section \<open>States and loans that exist\<close>



definition revealed_calculated :: "contract \<Rightarrow> bool" where
  "revealed_calculated s =
     (\<forall>l. isRevealed (decryptedSchedules s l) \<longrightarrow> isCalculated (amortizationSchedules s l))"

section \<open>The decryption oracle and the closed-form payment\<close>

text \<open>
  Modelled from the spec: the decryption oracle is an external collaborator. It answers a
  request with the ABI encoding of the plaintexts of the three submitted handles, in the
  order of submission, and its proof is accepted exactly for that answer.
\<close>

definition oracle_cleartexts :: "contract \<Rightarrow> uint256 \<Rightarrow> bytes" where
  "oracle_cleartexts s loanId =
     (let schedule = amortizationSchedules s loanId in
      abi_encode3 (encryptedMonthlyPayment schedule) (encryptedTotalInterest schedule)
        (encryptedPayoffTime schedule))"

definition honest_oracle :: "contract \<Rightarrow> verifier" where
  "honest_oracle s requestId cleartexts proof =
     (cleartexts = oracle_cleartexts s (requestToLoanId s requestId))"

text \<open>
  The closed-form annuity payment in the words of the specification: for a principal \<open>P\<close>,
  a monthly rate \<open>r\<close> and \<open>n\<close> months it is \<open>P r (1 + r)\<^sup>n / ((1 + r)\<^sup>n - 1)\<close>.
\<close>

definition annuity_payment :: "real \<Rightarrow> real \<Rightarrow> nat \<Rightarrow> real" where
  "annuity_payment P r n = P * r * (1 + r) ^ n / ((1 + r) ^ n - 1)"

section \<open>A concrete run of the contract\<close>

text \<open>
  The end-to-end scenario of the specification: the administrator deploys the contract and
  authorises an advisor, a borrower submits a loan with principal 10000, rate 500, term 36
  and no extra payment, the advisor calculates the schedule, the borrower requests the
  decryption and somebody delivers the oracle's answer.
\<close>

definition admin_addr :: address where "admin_addr = 1"
definition advisor_addr :: address where "advisor_addr = 2"
definition borrower_addr :: address where "borrower_addr = 3"
definition outsider_addr :: address where "outsider_addr = 9"

definition accept_all :: verifier where
  "accept_all requestId cleartexts proof = True"

definition setup_txs :: "tx list" where
  "setup_txs = [(admin_addr, AuthorizeAdvisor advisor_addr),
                (borrower_addr, SubmitEncryptedLoan 1700000000 10000 500 36 0)]"

definition s_submitted :: contract where
  "s_submitted = run accept_all (constructor admin_addr) setup_txs"

definition s_calculated :: contract where
  "s_calculated = run accept_all s_submitted [(advisor_addr, CalculateAmortization 1)]"

definition s_requested :: contract where
  "s_requested = run accept_all s_calculated [(borrower_addr, RequestScheduleDecryption 7 1)]"

definition s_revealed :: contract where
  "s_revealed = run (honest_oracle s_requested) s_requested
     [(outsider_addr, DecryptAmortizationSchedule 7 (oracle_cleartexts s_requested 1) [])]"

section \<open>The user interface: persisted schedules\<close>

text \<open>
  \<open>submitSchedule\<close> of \<open>App.tsx\<close> writes JSON documents into a key-value store.
  JSON values that the function handles:
\<close>

datatype json =
    JNull
  | JBool bool
  | JNum int
  | JStr string
  | JArr "json list"
  | JObj "(string \<times> json) list"

text \<open>
  Modelled from the spec: the storage backend behind \<open>contract.getData\<close> and
  \<open>contract.setData\<close> and the codec (\<open>JSON.stringify\<close> with \<open>ethers.toUtf8Bytes\<close>,
  \<open>ethers.toUtf8String\<close> with \<open>JSON.parse\<close>) are not part of the sources. A stored byte
  string is represented by what the reading side makes of it: \<open>Empty\<close> has length zero,
  \<open>Doc j\<close> is the serialisation of \<open>j\<close> and parses back to \<open>j\<close>, \<open>Junk\<close> is non-empty
  and \<open>JSON.parse\<close> throws on it. A key that was never written reads as \<open>Empty\<close>.
\<close>

datatype blob = Empty | Doc json | Junk

type_synonym kvstore = "string \<Rightarrow> blob"

definition getData :: "kvstore \<Rightarrow> string \<Rightarrow> blob" where
  "getData st k = st k"

definition setData :: "kvstore \<Rightarrow> string \<Rightarrow> blob \<Rightarrow> kvstore" where
  "setData st k v = st(k := v)"

text \<open>
  The form \<open>newScheduleData\<close> of the component; its fields \<open>loanAmount\<close>, \<open>term\<close>,
  \<open>interestRate\<close> and \<open>goal\<close> carry the prefix \<open>form_\<close>.
\<close>

record NewScheduleData =
  form_loanAmount :: string
  form_term :: string
  form_interestRate :: string
  form_goal :: string

text \<open>
  What one call of \<open>submitSchedule\<close> reads from its surroundings: whether a wallet provider is
  connected, whether \<open>getContractWithSigner\<close> yields a contract, the connected account, the
  two readings of \<open>Date.now()\<close> (for the identifier and for the timestamp), the seven
  characters taken from \<open>Math.random().toString(36)\<close>, the results of
  \<open>btoa(JSON.stringify(newScheduleData))\<close> (\<open>None\<close> when \<open>btoa\<close> throws) and of
  \<open>parseInt\<close> (\<open>None\<close> for \<open>NaN\<close>, which is serialised as \<open>null\<close>), and whether each of
  the two \<open>setData\<close> transactions and the \<open>getData\<close> call between them goes through.
\<close>

record submit_env =
  provider_connected :: bool
  signer_contract :: bool
  account :: string
  now_id :: nat
  now_stamp :: nat
  random_suffix :: string
  btoa_json :: "NewScheduleData \<Rightarrow> string option"
  parseInt :: "string \<Rightarrow> int option"
  tx1_accepted :: bool
  keys_read :: bool
  tx2_accepted :: bool

text \<open>Decimal digits of a number, as the template literal prints \<open>Date.now()\<close>.\<close>

definition digit_char :: "nat \<Rightarrow> char" where
  "digit_char d = ''0123456789'' ! d"

function string_of_nat :: "nat \<Rightarrow> string" where
  "string_of_nat n =
     (if n < 10 then [digit_char n] else string_of_nat (n div 10) @ [digit_char (n mod 10)])"
  by pat_completeness auto
termination
  by (relation "measure (\<lambda>n. n)") auto

definition scheduleId :: "submit_env \<Rightarrow> string" where
  "scheduleId env = string_of_nat (now_id env) @ ''-'' @ random_suffix env"

definition scheduleData :: "submit_env \<Rightarrow> NewScheduleData \<Rightarrow> string \<Rightarrow> json" where
  "scheduleData env form encoded =
     JObj [(''data'', JStr (''FHE-'' @ encoded)),
           (''timestamp'', JNum (int (now_stamp env div 1000))),
           (''owner'', JStr (account env)),
           (''loanAmount'', JStr (form_loanAmount form)),
           (''term'', (case parseInt env (form_term form) of None \<Rightarrow> JNull | Some n \<Rightarrow> JNum n)),
           (''status'', JStr ''pending'')]"

datatype ui_result = AlertNoProvider | TxSuccess | TxError

text \<open>
  The function returns the store it leaves behind and what it shows. An exception anywhere
  inside the \<open>try\<close> block ends in the error status; writes made before it stay. The parsed
  keys are used as they come: \<open>keys.push\<close> throws on a document that is not an array, and a
  parse failure is caught and leaves the empty list.
\<close>

definition submitSchedule :: "submit_env \<Rightarrow> NewScheduleData \<Rightarrow> kvstore \<Rightarrow> kvstore \<times> ui_result" where
  "submitSchedule env form st =
     (if \<not> provider_connected env then (st, AlertNoProvider)
      else case btoa_json env form of
        None \<Rightarrow> (st, TxError)
      | Some encoded \<Rightarrow>
          if \<not> signer_contract env then (st, TxError)
          else if \<not> tx1_accepted env then (st, TxError)
          else
            let st1 = setData st (''schedule_'' @ scheduleId env)
                        (Doc (scheduleData env form encoded));
                keysBytes = getData st1 ''schedule_keys''
            in if \<not> keys_read env then (st1, TxError)
               else
               case (case keysBytes of
                       Empty \<Rightarrow> Some []
                     | Junk \<Rightarrow> Some []
                     | Doc (JArr ks) \<Rightarrow> Some ks
                     | Doc _ \<Rightarrow> None) of
                 None \<Rightarrow> (st1, TxError)
               | Some keys \<Rightarrow>
                   if \<not> tx2_accepted env then (st1, TxError)
                   else (setData st1 ''schedule_keys'' (Doc (JArr (keys @ [JStr (scheduleId env)]))),
                         TxSuccess))"

fun submit_all :: "(submit_env \<times> NewScheduleData) list \<Rightarrow> kvstore \<Rightarrow> kvstore" where
  "submit_all [] st = st"
| "submit_all ((env, form) # rest) st = submit_all rest (fst (submitSchedule env form st))"

text \<open>
  The layout of the persisted state: a record is a JSON object with exactly the six fields
  below, and every identifier listed under \<open>schedule_keys\<close> has such a record under
  \<open>schedule_<id>\<close>.
\<close>

definition schedule_fields :: "string list" where
  "schedule_fields = [''data'', ''timestamp'', ''owner'', ''loanAmount'', ''term'', ''status'']"

definition is_schedule_record :: "blob \<Rightarrow> bool" where
  "is_schedule_record b =
     (case b of Doc (JObj kvs) \<Rightarrow> map fst kvs = schedule_fields | _ \<Rightarrow> False)"

definition listed_ids :: "kvstore \<Rightarrow> json list" where
  "listed_ids st = (case st ''schedule_keys'' of Doc (JArr ks) \<Rightarrow> ks | _ \<Rightarrow> [])"

definition keys_have_records :: "kvstore \<Rightarrow> bool" where
  "keys_have_records st =
     (\<forall>k \<in> set (listed_ids st).
        case k of JStr i \<Rightarrow> is_schedule_record (st (''schedule_'' @ i)) | _ \<Rightarrow> False)"

definition empty_store :: kvstore where
  "empty_store = (\<lambda>k. Empty)"

definition demo_env :: submit_env where
  "demo_env = \<lparr>provider_connected = True, signer_contract = True, account = ''0xabc'',
      now_id = 1700000000123, now_stamp = 1700000000124, random_suffix = ''k3x9q2a'',
      btoa_json = (\<lambda>f. Some ''eyJ9''), parseInt = (\<lambda>t. if t = ''36'' then Some 36 else None),
      tx1_accepted = True, keys_read = True, tx2_accepted = True\<rparr>"

definition demo_form :: NewScheduleData where
  "demo_form = \<lparr>form_loanAmount = ''10000'', form_term = ''36'', form_interestRate = ''5'',
      form_goal = []\<rparr>"

section \<open>Properties of the ABI coding\<close>

lemma be_nat_zeros: "foldl (\<lambda>acc b. acc * 256 + unat (b::8 word)) 0 (replicate n 0) = 0"
  by (induction n) simp_all

lemma bytes_sum:
  assumes "n < 4294967296"
  shows "((n div 16777216 mod 256 * 256 + n div 65536 mod 256) * 256 + n div 256 mod 256) * 256
           + n mod 256 = (n::nat)"
proof -
  have d1: "n div 256 div 256 = n div 65536"
    by (simp add: div_mult2_eq [symmetric])
  have d2: "n div 65536 div 256 = n div 16777216"
    by (simp add: div_mult2_eq [symmetric])
  have top: "n div 16777216 mod 256 = n div 16777216"
    using assms by (simp add: less_mult_imp_div_less)
  have e0: "n div 256 * 256 + n mod 256 = n"
    by (rule div_mult_mod_eq)
  have e1: "n div 65536 * 256 + n div 256 mod 256 = n div 256"
    using div_mult_mod_eq [of "n div 256" 256] by (simp only: d1)
  have e2: "n div 16777216 * 256 + n div 65536 mod 256 = n div 65536"
    using div_mult_mod_eq [of "n div 65536" 256] by (simp only: d2)
  show ?thesis
    by (simp only: top e2 e1 e0)
qed

lemma unat_byte: "unat (of_nat k :: 8 word) = k mod 256"
  by (simp add: unat_of_nat)

lemma be_nat_encode: "be_nat (abi_encode_uint32 v) = unat v"
proof -
  have b: "unat v < 4294967296" using unsigned_less [of v] by simp
  have "be_nat (abi_encode_uint32 v) =
     ((unat v div 16777216 mod 256 * 256 + unat v div 65536 mod 256) * 256
        + unat v div 256 mod 256) * 256 + unat v mod 256"
    unfolding be_nat_def abi_encode_uint32_def foldl_append be_nat_zeros
    by (simp only: foldl.simps unat_byte mod_mod_trivial mult_zero_left add_0)
  then show ?thesis by (simp only: bytes_sum [OF b])
qed

lemma length_abi_encode_uint32: "length (abi_encode_uint32 v) = 32"
  by (simp add: abi_encode_uint32_def)

lemma abi_decode_encode_uint32: "abi_decode_uint32 (abi_encode_uint32 v) = Some v"
  using unsigned_less [of v] by (simp add: abi_decode_uint32_def be_nat_encode)

lemma abi_decode3_encode3: "abi_decode3 (abi_encode3 a b c) = Some (a, b, c)"
  by (simp add: abi_decode3_def abi_encode3_def length_abi_encode_uint32 abi_decode_encode_uint32)

section \<open>Single transactions\<close>

text \<open>Checked increment: below the maximum, the successor is larger and not zero.\<close>

lemma word_succ_gt: "(x::'a::len word) \<noteq> - 1 \<Longrightarrow> x < x + 1"
  by (meson inc_less_eq_triv_imp not_le)


lemmas call_defs = authorizeAdvisor_def submitEncryptedLoan_def calculateAmortization_def
  requestScheduleDecryption_def decryptAmortizationSchedule_def protectFinancialPrivacy_def

lemma exec_loanCount_mono: "exec vf s t = Inr s' \<Longrightarrow> loanCount s \<le> loanCount s'"
proof (cases t)
  case (Pair sender c)
  assume "exec vf s t = Inr s'"
  with Pair show ?thesis
    by (cases c)
       (auto simp: call_defs Let_def dest: word_succ_gt split: if_splits option.splits)
qed

lemma exec_advisor_mono:
  "exec vf s t = Inr s' \<Longrightarrow> financialAdvisors s a \<Longrightarrow> financialAdvisors s' a"
proof (cases t)
  case (Pair sender c)
  assume "exec vf s t = Inr s'" "financialAdvisors s a"
  with Pair show ?thesis
    by (cases c) (auto simp: call_defs Let_def split: if_splits option.splits)
qed

lemma exec_schedule_existing:
  assumes "exec vf s t = Inr s'" "loanId \<le> loanCount s"
    "isCalculated (amortizationSchedules s loanId)"
  shows "amortizationSchedules s' loanId = amortizationSchedules s loanId"
proof (cases t)
  case (Pair sender c)
  show ?thesis
  proof (cases c)
    case (SubmitEncryptedLoan now p r tm e)
    with assms Pair have nov: "loanCount s \<noteq> - 1"
      by (auto simp: submitEncryptedLoan_def split: if_splits)
    then have "loanId \<noteq> loanCount s + 1"
      using assms(2) word_succ_gt [OF nov] by auto
    with assms Pair SubmitEncryptedLoan show ?thesis
      by (auto simp: submitEncryptedLoan_def Let_def split: if_splits)
  qed (use assms Pair in \<open>auto simp: call_defs Let_def split: if_splits option.splits\<close>)
qed


lemma calc_rejected_when_calculated:
  "isCalculated (amortizationSchedules s loanId) \<Longrightarrow>
   calculateAmortization sender s loanId =
     (if financialAdvisors s sender then Inl AlreadyCalculated else Inl NotAdvisor)"
  by (simp add: calculateAmortization_def)

lemma calc_sets_flag:
  "calculateAmortization sender s loanId = Inr s' \<Longrightarrow>
   isCalculated (amortizationSchedules s' loanId) \<and> loanCount s' = loanCount s"
  by (auto simp: calculateAmortization_def Let_def split: if_splits)

lemma exec_schedule_other:
  assumes "exec vf s t = Inr s'" "loanId \<le> loanCount s"
    "snd t \<noteq> CalculateAmortization loanId"
  shows "amortizationSchedules s' loanId = amortizationSchedules s loanId"
proof (cases t)
  case (Pair sender c)
  show ?thesis
  proof (cases c)
    case (SubmitEncryptedLoan now p r tm e)
    with assms Pair have nov: "loanCount s \<noteq> - 1"
      by (auto simp: submitEncryptedLoan_def split: if_splits)
    then have "loanId \<noteq> loanCount s + 1"
      using assms(2) word_succ_gt [OF nov] by auto
    with assms Pair SubmitEncryptedLoan show ?thesis
      by (auto simp: submitEncryptedLoan_def Let_def split: if_splits)
  qed (use assms Pair in \<open>auto simp: call_defs Let_def split: if_splits option.splits\<close>)
qed

section \<open>Sequences of transactions\<close>

lemma apply_tx_Inl: "exec vf s t = Inl e \<Longrightarrow> apply_tx vf s t = s"
  by (simp add: apply_tx_def)

lemma apply_tx_Inr: "exec vf s t = Inr s' \<Longrightarrow> apply_tx vf s t = s'"
  by (simp add: apply_tx_def)


lemma existing_schedule_stable:
  "loanId \<le> loanCount s \<Longrightarrow> isCalculated (amortizationSchedules s loanId) \<Longrightarrow>
   amortizationSchedules (run vf s ts) loanId = amortizationSchedules s loanId"
proof (induction ts arbitrary: s)
  case Nil
  show ?case by simp
next
  case (Cons t ts)
  show ?case
  proof (cases "exec vf s t")
    case (Inl e)
    with Cons show ?thesis by (simp add: apply_tx_def)
  next
    case (Inr s')
    have same: "amortizationSchedules s' loanId = amortizationSchedules s loanId"
      using exec_schedule_existing [OF Inr Cons.prems] .
    have "loanId \<le> loanCount s'"
      using exec_loanCount_mono [OF Inr] Cons.prems(1) by simp
    with Cons.IH [of s'] same Cons.prems(2) Inr show ?thesis
      by (simp add: apply_tx_def)
  qed
qed

lemma no_success_when_calculated:
  "loanId \<le> loanCount s \<Longrightarrow> isCalculated (amortizationSchedules s loanId) \<Longrightarrow>
   calc_successes vf s loanId ts = 0"
proof (induction ts arbitrary: s)
  case Nil
  show ?case by (simp add: calc_successes_def)
next
  case (Cons t ts)
  show ?case
  proof (cases "exec vf s t")
    case (Inl e)
    with Cons show ?thesis by (simp add: calc_successes_def)
  next
    case (Inr s')
    have other: "snd t \<noteq> CalculateAmortization loanId"
    proof
      assume "snd t = CalculateAmortization loanId"
      then have "exec vf s t = calculateAmortization (fst t) s loanId"
        by (cases t) simp
      with Inr Cons.prems(2) show False
        by (simp add: calc_rejected_when_calculated split: if_splits)
    qed
    have "amortizationSchedules s' loanId = amortizationSchedules s loanId"
      using exec_schedule_other [OF Inr Cons.prems(1) other] .
    moreover have "loanId \<le> loanCount s'"
      using exec_loanCount_mono [OF Inr] Cons.prems(1) by simp
    ultimately have "calc_successes vf s' loanId ts = 0"
      using Cons.IH [of s'] Cons.prems(2) by simp
    with Inr other show ?thesis by (simp add: calc_successes_def)
  qed
qed

lemma at_most_one_success:
  "loanId \<le> loanCount s \<Longrightarrow> calc_successes vf s loanId ts \<le> 1"
proof (induction ts arbitrary: s)
  case Nil
  show ?case by (simp add: calc_successes_def)
next
  case (Cons t ts)
  show ?case
  proof (cases "exec vf s t")
    case (Inl e)
    with Cons show ?thesis by (simp add: calc_successes_def)
  next
    case (Inr s')
    have le: "loanId \<le> loanCount s'"
      using exec_loanCount_mono [OF Inr] Cons.prems by simp
    show ?thesis
    proof (cases "snd t = CalculateAmortization loanId")
      case True
      then have "exec vf s t = calculateAmortization (fst t) s loanId"
        by (cases t) simp
      with Inr have "isCalculated (amortizationSchedules s' loanId)"
        using calc_sets_flag by simp
      then have "calc_successes vf s' loanId ts = 0"
        using no_success_when_calculated [OF le] by simp
      with Inr True show ?thesis by (simp add: calc_successes_def)
    next
      case False
      with Inr Cons.IH [OF le] show ?thesis by (simp add: calc_successes_def)
    qed
  qed
qed

lemma advisor_attempt_succeeds:
  "financialAdvisors s a \<Longrightarrow> \<not> isCalculated (amortizationSchedules s loanId) \<Longrightarrow>
   \<exists>s'. calculateAmortization a s loanId = Inr s'"
  by (simp add: calculateAmortization_def Let_def)

lemma exactly_one_success:
  "loanId \<le> loanCount s \<Longrightarrow> \<not> isCalculated (amortizationSchedules s loanId) \<Longrightarrow>
   financialAdvisors s a \<Longrightarrow> (a, CalculateAmortization loanId) \<in> set ts \<Longrightarrow>
   calc_successes vf s loanId ts = 1"
proof (induction ts arbitrary: s)
  case Nil
  then show ?case by simp
next
  case (Cons t ts)
  show ?case
  proof (cases "exec vf s t")
    case (Inl e)
    have "t \<noteq> (a, CalculateAmortization loanId)"
      using advisor_attempt_succeeds [OF Cons.prems(3) Cons.prems(2)] Inl by auto
    with Cons.prems have "(a, CalculateAmortization loanId) \<in> set ts" by simp
    with Cons.IH [of s] Cons.prems Inl show ?thesis by (simp add: calc_successes_def)
  next
    case (Inr s')
    have le: "loanId \<le> loanCount s'"
      using exec_loanCount_mono [OF Inr] Cons.prems(1) by simp
    show ?thesis
    proof (cases "snd t = CalculateAmortization loanId")
      case True
      then have "exec vf s t = calculateAmortization (fst t) s loanId"
        by (cases t) simp
      with Inr have "isCalculated (amortizationSchedules s' loanId)"
        using calc_sets_flag by simp
      then have "calc_successes vf s' loanId ts = 0"
        using no_success_when_calculated [OF le] by simp
      with Inr True show ?thesis by (simp add: calc_successes_def)
    next
      case False
      then have ne: "t \<noteq> (a, CalculateAmortization loanId)" by auto
      have "amortizationSchedules s' loanId = amortizationSchedules s loanId"
        using exec_schedule_other [OF Inr Cons.prems(1) False] .
      moreover have "financialAdvisors s' a"
        using exec_advisor_mono [OF Inr Cons.prems(3)] .
      moreover have "(a, CalculateAmortization loanId) \<in> set ts"
        using Cons.prems(4) ne by simp
      ultimately have "calc_successes vf s' loanId ts = 1"
        using Cons.IH [OF le] Cons.prems(2) by simp
      with Inr False show ?thesis by (simp add: calc_successes_def)
    qed
  qed
qed

section \<open>Identifiers that were never created\<close>






section \<open>Evaluating the concrete run\<close>

lemmas fixture_defs = admin_addr_def advisor_addr_def borrower_addr_def outsider_addr_def
  accept_all_def setup_txs_def s_submitted_def s_calculated_def s_requested_def

lemmas eval_defs = apply_tx_def constructor_def call_defs Let_def FHE_asEuint32_def FHE_add_def
  FHE_sub_def FHE_mul_def FHE_div_def FHE_pow_def div_sentinel_def calc_successes_def
  zero_loan_def zero_schedule_def zero_decrypted_def

lemmas view_defs = calculateInterestSavings_def calculateAffordability_def
  optimizePaymentStrategy_def calculateDebtToIncome_def estimateEarlyPayoffImpact_def
  calculateLoanHealth_def calculateRefinancingBenefit_def calculatePaymentShockRisk_def
  optimizeForGoals_def calculateInterestSensitivity_def estimateTaxBenefit_def
  calculateLoanLiquidity_def detectOverleveraging_def calculateFinancialFlexibility_def
  optimizeForCashFlow_def estimateNetCost_def calculateLoanEfficiency_def
  generatePersonalizedAdvice_def calculateDebtSustainability_def estimateInflationImpact_def

lemma s_submitted_fields:
  "loanCount s_submitted = 1"
  "encryptedLoans s_submitted 1 = \<lparr>loan_id = 1, borrower = borrower_addr,
      encryptedPrincipal = 10000, encryptedInterestRate = 500, encryptedTerm = 36,
      encryptedExtraPayment = 0, timestamp = 1700000000\<rparr>"
  "amortizationSchedules s_submitted 1 = zero_schedule"
  "decryptedSchedules s_submitted 1 = zero_decrypted"
  "financialAdvisors s_submitted advisor_addr"
  by (simp_all add: fixture_defs eval_defs)

lemma s_calculated_fields:
  "loanCount s_calculated = 1"
  "borrower (encryptedLoans s_calculated 1) = borrower_addr"
  "amortizationSchedules s_calculated 1 = \<lparr>encryptedMonthlyPayment = 4294967295,
      encryptedTotalInterest = 4294957260, encryptedPayoffTime = 0, isCalculated = True\<rparr>"
  "decryptedSchedules s_calculated 1 = zero_decrypted"
  by (simp_all add: fixture_defs eval_defs)

lemma s_requested_fields:
  "requestToLoanId s_requested 7 = 1"
  "borrower (encryptedLoans s_requested 1) = borrower_addr"
  "amortizationSchedules s_requested 1 = \<lparr>encryptedMonthlyPayment = 4294967295,
      encryptedTotalInterest = 4294957260, encryptedPayoffTime = 0, isCalculated = True\<rparr>"
  "decryptedSchedules s_requested 1 = zero_decrypted"
  by (simp_all add: fixture_defs eval_defs)

lemma oracle_cleartexts_decode:
  "abi_decode3 (oracle_cleartexts s loanId) =
     Some (encryptedMonthlyPayment (amortizationSchedules s loanId),
           encryptedTotalInterest (amortizationSchedules s loanId),
           encryptedPayoffTime (amortizationSchedules s loanId))"
  by (simp add: oracle_cleartexts_def Let_def abi_decode3_encode3)

lemma honest_resolution:
  "decryptAmortizationSchedule (honest_oracle s_requested) sender s_requested 7
     (oracle_cleartexts s_requested 1) pf =
   Inr (s_requested\<lparr>decryptedSchedules := (decryptedSchedules s_requested)(1 :=
          \<lparr>monthlyPayment = 4294967295, totalInterest = 4294957260, payoffTime = 0,
           isRevealed = True\<rparr>),
        events := events s_requested @ [ScheduleDecrypted 1]\<rparr>)"
  by (simp add: decryptAmortizationSchedule_def FHE_checkSignatures_def honest_oracle_def
      s_requested_fields oracle_cleartexts_decode zero_decrypted_def)

lemma s_revealed_fields:
  "requestToLoanId s_revealed 7 = 1"
  "decryptedSchedules s_revealed 1 = \<lparr>monthlyPayment = 4294967295,
      totalInterest = 4294957260, payoffTime = 0, isRevealed = True\<rparr>"
  "amortizationSchedules s_revealed 1 = amortizationSchedules s_requested 1"
  "borrower (encryptedLoans s_revealed 1) = borrower_addr"
  by (simp_all add: s_revealed_def apply_tx_def honest_resolution s_requested_fields)

section \<open>Analytic functions before the schedule is calculated\<close>

lemma guarded_views_revert:
  assumes "\<not> isCalculated (amortizationSchedules s loanId)"
  shows "calculateInterestSavings s loanId = Inl NotCalculated"
    and "calculateAffordability s loanId = Inl NotCalculated"
    and "optimizePaymentStrategy s loanId = Inl NotCalculated"
    and "calculateDebtToIncome s loanId = Inl NotCalculated"
    and "estimateEarlyPayoffImpact s loanId additionalPayment = Inl NotCalculated"
    and "calculateLoanHealth s loanId = Inl NotCalculated"
    and "calculateRefinancingBenefit s loanId newRate = Inl NotCalculated"
    and "calculatePaymentShockRisk s loanId = Inl NotCalculated"
    and "optimizeForGoals s loanId goalTime = Inl NotCalculated"
    and "calculateInterestSensitivity s loanId = Inl NotCalculated"
    and "estimateTaxBenefit s loanId = Inl NotCalculated"
    and "calculateLoanLiquidity s loanId = Inl NotCalculated"
    and "detectOverleveraging s loanId = Inl NotCalculated"
    and "calculateFinancialFlexibility s loanId = Inl NotCalculated"
    and "optimizeForCashFlow s loanId = Inl NotCalculated"
    and "estimateNetCost s loanId = Inl NotCalculated"
    and "calculateLoanEfficiency s loanId = Inl NotCalculated"
    and "generatePersonalizedAdvice s loanId = Inl NotCalculated"
    and "calculateDebtSustainability s loanId = Inl NotCalculated"
    and "estimateInflationImpact s loanId = Inl NotCalculated"
  using assms by (simp_all add: view_defs and_then_def)

text \<open>\<open>calculatePrepaymentRisk\<close> never reverts.\<close>

lemma calculatePrepaymentRisk_returns: "\<exists>h. calculatePrepaymentRisk s loanId = Inr h"
  by (simp add: calculatePrepaymentRisk_def Let_def)

text \<open>
  Claim C1. Every read-only analytic function reverts with \<open>NotCalculated\<close> for a loan
  whose schedule has not been calculated. Twenty of the twenty-one functions do
  (\<open>guarded_views_revert\<close>); \<open>calculatePrepaymentRisk\<close> has no such \<open>require\<close>. In the
  state after the loan of the scenario is submitted and before its schedule is calculated,
  \<open>calculatePrepaymentRisk\<close> returns a handle (of the plaintext \<open>0 * 100 / 10000 = 0\<close>),
  while every other analytic function reverts.
\<close>

theorem calculatePrepaymentRisk_unguarded:
  "\<not> isCalculated (amortizationSchedules s_submitted 1)
   \<and> calculatePrepaymentRisk s_submitted 1 = Inr 0
   \<and> calculateInterestSavings s_submitted 1 = Inl NotCalculated
   \<and> calculateAffordability s_submitted 1 = Inl NotCalculated
   \<and> optimizePaymentStrategy s_submitted 1 = Inl NotCalculated
   \<and> calculateDebtToIncome s_submitted 1 = Inl NotCalculated
   \<and> estimateEarlyPayoffImpact s_submitted 1 0 = Inl NotCalculated
   \<and> calculateLoanHealth s_submitted 1 = Inl NotCalculated
   \<and> calculateRefinancingBenefit s_submitted 1 0 = Inl NotCalculated
   \<and> calculatePaymentShockRisk s_submitted 1 = Inl NotCalculated
   \<and> optimizeForGoals s_submitted 1 12 = Inl NotCalculated
   \<and> calculateInterestSensitivity s_submitted 1 = Inl NotCalculated
   \<and> estimateTaxBenefit s_submitted 1 = Inl NotCalculated
   \<and> calculateLoanLiquidity s_submitted 1 = Inl NotCalculated
   \<and> detectOverleveraging s_submitted 1 = Inl NotCalculated
   \<and> calculateFinancialFlexibility s_submitted 1 = Inl NotCalculated
   \<and> optimizeForCashFlow s_submitted 1 = Inl NotCalculated
   \<and> estimateNetCost s_submitted 1 = Inl NotCalculated
   \<and> calculateLoanEfficiency s_submitted 1 = Inl NotCalculated
   \<and> generatePersonalizedAdvice s_submitted 1 = Inl NotCalculated
   \<and> calculateDebtSustainability s_submitted 1 = Inl NotCalculated
   \<and> estimateInflationImpact s_submitted 1 = Inl NotCalculated"
proof -
  have n: "\<not> isCalculated (amortizationSchedules s_submitted 1)"
    by (simp add: s_submitted_fields zero_schedule_def)
  have p: "calculatePrepaymentRisk s_submitted 1 = Inr 0"
    by (simp add: calculatePrepaymentRisk_def s_submitted_fields FHE_div_def FHE_mul_def
        FHE_asEuint32_def)
  from n p guarded_views_revert [OF n] show ?thesis by simp
qed

section \<open>The end-to-end scenario\<close>

lemma annuity_literal_rate:
  "4166 < annuity_payment 10000 (500 / 1200) 36 \<and> annuity_payment 10000 (500 / 1200) 36 < 4167"
  by (simp add: annuity_payment_def field_simps)

lemma annuity_percent_rate:
  "299 < annuity_payment 10000 (5 / 1200) 36 \<and> annuity_payment 10000 (5 / 1200) 36 < 300"
  by (simp add: annuity_payment_def field_simps)

text \<open>
  The integer quotient loses every rate below 1200: whatever the principal and the term,
  the payment of such a loan is the answer to \<open>0 / 0\<close>.
\<close>

lemma monthly_rate_truncates: "unat r < 1200 \<Longrightarrow> FHE_div r (FHE_asEuint32 1200) = 0"
proof -
  assume "unat r < 1200"
  then have "unat (r div 1200) = 0" by (simp add: unat_div)
  then have "r div 1200 = 0" by (simp add: unat_eq_0)
  then show ?thesis by (simp add: FHE_div_def FHE_asEuint32_def)
qed

lemma payment_below_twelve_percent:
  assumes "financialAdvisors s sender" "\<not> isCalculated (amortizationSchedules s loanId)"
    "unat (encryptedInterestRate (encryptedLoans s loanId)) < 1200"
  shows "\<exists>s'. calculateAmortization sender s loanId = Inr s'
           \<and> encryptedMonthlyPayment (amortizationSchedules s' loanId) = div_sentinel"
  using assms monthly_rate_truncates [OF assms(3)]
  by (simp add: calculateAmortization_def Let_def FHE_div_def FHE_mul_def FHE_add_def
      FHE_sub_def FHE_pow_def FHE_asEuint32_def)

text \<open>
  Claim C2. In the end-to-end scenario (principal 10000, rate 500, term 36, no extra
  payment) the decrypted schedule is revealed and its \<open>monthlyPayment\<close> is the closed-form
  annuity payment. The first half holds. The payment does not: the monthly rate is the
  integer quotient \<open>500 div 1200 = 0\<close>, so numerator and denominator of the payment are both
  \<open>0\<close> and the stored payment is the engine's answer to \<open>0 / 0\<close>, the sentinel
  \<open>4294967295\<close>. The closed form gives a value between 299 and 300 for a rate of 5.00 per
  cent a year, and between 4166 and 4167 when the rate 500 is divided by 1200 as it stands.
\<close>

theorem end_to_end_monthly_payment:
  "isRevealed (decryptedSchedules s_revealed 1)
   \<and> encryptedMonthlyPayment (amortizationSchedules s_calculated 1) = FHE_div 0 0
   \<and> monthlyPayment (decryptedSchedules s_revealed 1) = div_sentinel
   \<and> unat (monthlyPayment (decryptedSchedules s_revealed 1)) = 4294967295
   \<and> 4166 < annuity_payment 10000 (500 / 1200) 36
   \<and> annuity_payment 10000 (500 / 1200) 36 < 4167
   \<and> 299 < annuity_payment 10000 (5 / 1200) 36
   \<and> annuity_payment 10000 (5 / 1200) 36 < 300"
  using annuity_literal_rate annuity_percent_rate
  by (simp add: s_revealed_fields s_calculated_fields FHE_div_def div_sentinel_def)

section \<open>The schedule is calculated once\<close>

text \<open>
  Claim C3, for a loan that exists. Let \<open>loanId\<close> be at most \<open>loanCount\<close>. Over any
  sequence of transactions at most one \<open>calculateAmortization\<close> for \<open>loanId\<close> succeeds; a
  successful call sets \<open>isCalculated\<close>; once it is set, a further call fails, with
  \<open>AlreadyCalculated\<close> for an authorised advisor and at the advisor check for anybody else,
  no later call succeeds and the stored schedule stays as it is through every sequence of
  transactions; and when the schedule is not yet calculated and the sequence holds an
  attempt of an authorised advisor, exactly one call succeeds.
\<close>

theorem calculateAmortization_once_per_loan:
  assumes "loanId \<le> loanCount s"
  shows "calc_successes vf s loanId ts \<le> 1
    \<and> (\<forall>s'. calculateAmortization sender s loanId = Inr s' \<longrightarrow>
           isCalculated (amortizationSchedules s' loanId))
    \<and> (isCalculated (amortizationSchedules s loanId) \<longrightarrow>
           calculateAmortization sender s loanId =
             (if financialAdvisors s sender then Inl AlreadyCalculated else Inl NotAdvisor)
         \<and> calc_successes vf s loanId ts = 0
         \<and> amortizationSchedules (run vf s ts) loanId = amortizationSchedules s loanId)
    \<and> (\<not> isCalculated (amortizationSchedules s loanId) \<and> financialAdvisors s a
           \<and> (a, CalculateAmortization loanId) \<in> set ts \<longrightarrow>
           calc_successes vf s loanId ts = 1)"
  using assms at_most_one_success [of loanId s vf ts] calc_sets_flag [of sender s loanId]
    calc_rejected_when_calculated [of s loanId sender]
    no_success_when_calculated [of loanId s vf ts]
    existing_schedule_stable [of loanId s vf ts]
    exactly_one_success [of loanId s a ts vf]
  by blast

theorem calculateAmortization_once_per_loan_witness:
  "1 \<le> loanCount s_submitted
   \<and> \<not> isCalculated (amortizationSchedules s_submitted 1)
   \<and> financialAdvisors s_submitted advisor_addr
   \<and> calc_successes accept_all s_submitted 1
        [(outsider_addr, CalculateAmortization 1), (advisor_addr, CalculateAmortization 1),
         (advisor_addr, CalculateAmortization 1)] = 1
   \<and> isCalculated (amortizationSchedules s_calculated 1)
   \<and> calculateAmortization advisor_addr s_calculated 1 = Inl AlreadyCalculated
   \<and> amortizationSchedules
        (run accept_all s_calculated [(advisor_addr, CalculateAmortization 1)]) 1
       = amortizationSchedules s_calculated 1"
proof -
  have a: "1 \<le> loanCount s_submitted"
    and b: "\<not> isCalculated (amortizationSchedules s_submitted 1)"
    and c: "financialAdvisors s_submitted advisor_addr"
    by (simp_all add: fixture_defs eval_defs)
  have d: "1 \<le> loanCount s_calculated"
    and e: "isCalculated (amortizationSchedules s_calculated 1)"
    and f: "financialAdvisors s_calculated advisor_addr"
    by (simp_all add: fixture_defs eval_defs)
  from calculateAmortization_once_per_loan [OF a, of accept_all
      "[(outsider_addr, CalculateAmortization 1), (advisor_addr, CalculateAmortization 1),
        (advisor_addr, CalculateAmortization 1)]" advisor_addr advisor_addr] b c
  have g: "calc_successes accept_all s_submitted 1
        [(outsider_addr, CalculateAmortization 1), (advisor_addr, CalculateAmortization 1),
         (advisor_addr, CalculateAmortization 1)] = 1"
    by simp
  from calculateAmortization_once_per_loan [OF d, of accept_all
      "[(advisor_addr, CalculateAmortization 1)]" advisor_addr advisor_addr] e f
  have h: "calculateAmortization advisor_addr s_calculated 1 = Inl AlreadyCalculated
     \<and> amortizationSchedules
        (run accept_all s_calculated [(advisor_addr, CalculateAmortization 1)]) 1
       = amortizationSchedules s_calculated 1"
    by simp
  from a b c g e h show ?thesis by simp
qed

text \<open>
  For an identifier above \<open>loanCount\<close> the claim fails as stated: the advisor calculates
  the schedule of identifier 1 before any loan exists, the first submission then creates
  loan 1 and initialises its schedule again, and a second calculation for identifier 1
  succeeds. And a later call by somebody who is not an advisor stops at the advisor check,
  not at \<open>AlreadyCalculated\<close>.
\<close>

theorem calculateAmortization_twice_counterexample:
  "calc_successes accept_all (constructor admin_addr) 1
     [(admin_addr, AuthorizeAdvisor advisor_addr), (advisor_addr, CalculateAmortization 1),
      (borrower_addr, SubmitEncryptedLoan 1700000000 10000 500 36 0),
      (advisor_addr, CalculateAmortization 1)] = 2
   \<and> isCalculated (amortizationSchedules s_calculated 1)
   \<and> calculateAmortization outsider_addr s_calculated 1 = Inl NotAdvisor"
  by (simp add: fixture_defs eval_defs)

section \<open>Resolving a decryption request\<close>

lemma resolve_success_iff:
  "(\<exists>s'. decryptAmortizationSchedule vf sender s requestId cleartexts proof = Inr s') \<longleftrightarrow>
     requestToLoanId s requestId \<noteq> 0
     \<and> isCalculated (amortizationSchedules s (requestToLoanId s requestId))
     \<and> \<not> isRevealed (decryptedSchedules s (requestToLoanId s requestId))
     \<and> FHE_checkSignatures vf requestId cleartexts proof
     \<and> abi_decode3 cleartexts \<noteq> None"
  by (auto simp: decryptAmortizationSchedule_def Let_def split: option.splits)

lemma resolve_success_state:
  assumes "decryptAmortizationSchedule vf sender s requestId cleartexts proof = Inr s'"
  shows "requestToLoanId s' requestId = requestToLoanId s requestId"
    and "requestToLoanId s requestId \<noteq> 0"
    and "isCalculated (amortizationSchedules s' (requestToLoanId s requestId))"
    and "isRevealed (decryptedSchedules s' (requestToLoanId s requestId))"
    and "abi_decode3 cleartexts =
           Some (monthlyPayment (decryptedSchedules s' (requestToLoanId s requestId)),
                 totalInterest (decryptedSchedules s' (requestToLoanId s requestId)),
                 payoffTime (decryptedSchedules s' (requestToLoanId s requestId)))"
  using assms
  by (auto simp: decryptAmortizationSchedule_def Let_def split: if_splits option.splits)

lemma resolve_revealed:
  "requestToLoanId s requestId \<noteq> 0 \<Longrightarrow>
   isCalculated (amortizationSchedules s (requestToLoanId s requestId)) \<Longrightarrow>
   isRevealed (decryptedSchedules s (requestToLoanId s requestId)) \<Longrightarrow>
   decryptAmortizationSchedule vf sender s requestId cleartexts proof = Inl AlreadyRevealed"
  by (simp add: decryptAmortizationSchedule_def)

text \<open>
  Claim C4. After \<open>decryptAmortizationSchedule\<close> has succeeded for a request, the decrypted
  schedule is revealed and holds the decoded plaintexts, and a replay of the same request
  identifier, by any sender, with any cleartexts and any proof under any verifier, fails
  with \<open>AlreadyRevealed\<close> and leaves the storage, the stored plaintext included, as it was.
\<close>

theorem resolveDecryption_replay_rejected:
  assumes "decryptAmortizationSchedule vf sender s requestId cleartexts proof = Inr s'"
  shows "isRevealed (decryptedSchedules s' (requestToLoanId s requestId))
    \<and> abi_decode3 cleartexts =
           Some (monthlyPayment (decryptedSchedules s' (requestToLoanId s requestId)),
                 totalInterest (decryptedSchedules s' (requestToLoanId s requestId)),
                 payoffTime (decryptedSchedules s' (requestToLoanId s requestId)))
    \<and> decryptAmortizationSchedule vf' sender' s' requestId cleartexts' proof' = Inl AlreadyRevealed
    \<and> apply_tx vf' s' (sender', DecryptAmortizationSchedule requestId cleartexts' proof') = s'"
proof -
  note st = resolve_success_state [OF assms]
  have "decryptAmortizationSchedule vf' sender' s' requestId cleartexts' proof' = Inl AlreadyRevealed"
    by (rule resolve_revealed) (simp_all add: st)
  then show ?thesis using st by (simp add: apply_tx_def)
qed

theorem resolveDecryption_replay_rejected_witness:
  "(\<exists>s'. decryptAmortizationSchedule (honest_oracle s_requested) outsider_addr s_requested 7
           (oracle_cleartexts s_requested 1) [] = Inr s'
      \<and> monthlyPayment (decryptedSchedules s' 1) = 4294967295
      \<and> decryptAmortizationSchedule accept_all borrower_addr s' 7
           (abi_encode3 1 2 3) [] = Inl AlreadyRevealed)"
proof -
  let ?s' = "s_requested\<lparr>decryptedSchedules := (decryptedSchedules s_requested)(1 :=
          \<lparr>monthlyPayment = 4294967295, totalInterest = 4294957260, payoffTime = 0,
           isRevealed = True\<rparr>),
        events := events s_requested @ [ScheduleDecrypted 1]\<rparr>"
  have h: "decryptAmortizationSchedule (honest_oracle s_requested) outsider_addr s_requested 7
           (oracle_cleartexts s_requested 1) [] = Inr ?s'"
    by (rule honest_resolution)
  from resolveDecryption_replay_rejected [OF h, of accept_all borrower_addr "abi_encode3 1 2 3" "[]"]
  have "decryptAmortizationSchedule accept_all borrower_addr ?s' 7 (abi_encode3 1 2 3) []
          = Inl AlreadyRevealed"
    by simp
  with h show ?thesis by simp
qed

section \<open>Requesting a decryption\<close>

lemma revealed_calculated_constructor: "revealed_calculated (constructor a)"
  by (simp add: revealed_calculated_def constructor_def zero_decrypted_def)

lemma exec_revealed_calculated:
  assumes "exec vf s t = Inr s'" "revealed_calculated s"
  shows "revealed_calculated s'"
proof (cases t)
  case (Pair sender c)
  with assms show ?thesis
    by (cases c)
       (auto simp: call_defs Let_def revealed_calculated_def FHE_asEuint32_def
             split: if_splits option.splits)
qed

lemma run_revealed_calculated: "revealed_calculated s \<Longrightarrow> revealed_calculated (run vf s ts)"
proof (induction ts arbitrary: s)
  case Nil
  then show ?case by simp
next
  case (Cons t ts)
  have "revealed_calculated (apply_tx vf s t)"
    using Cons.prems
    by (cases "exec vf s t") (auto simp: apply_tx_def dest: exec_revealed_calculated)
  then show ?case using Cons.IH by simp
qed

text \<open>
  Claim C5. In every state the contract can reach, \<open>requestScheduleDecryption\<close> fails with
  \<open>Unauthorized\<close> for a caller who is not the borrower of the loan, and then changes
  nothing; for the borrower it fails with \<open>NotCalculated\<close> when the schedule is not
  calculated and with \<open>AlreadyRevealed\<close> when the schedule is already revealed; and it
  succeeds only for the borrower of a calculated schedule that is not revealed.
\<close>

theorem requestScheduleDecryption_preconditions:
  assumes "s = run vf (constructor deployer) ts"
  shows "(borrower (encryptedLoans s loanId) \<noteq> sender \<longrightarrow>
            requestScheduleDecryption sender reqId s loanId = Inl Unauthorized
          \<and> apply_tx vf s (sender, RequestScheduleDecryption reqId loanId) = s)
    \<and> (borrower (encryptedLoans s loanId) = sender
          \<and> \<not> isCalculated (amortizationSchedules s loanId) \<longrightarrow>
            requestScheduleDecryption sender reqId s loanId = Inl NotCalculated)
    \<and> (borrower (encryptedLoans s loanId) = sender
          \<and> isRevealed (decryptedSchedules s loanId) \<longrightarrow>
            requestScheduleDecryption sender reqId s loanId = Inl AlreadyRevealed)
    \<and> (\<forall>s'. requestScheduleDecryption sender reqId s loanId = Inr s' \<longrightarrow>
            borrower (encryptedLoans s loanId) = sender
          \<and> isCalculated (amortizationSchedules s loanId)
          \<and> \<not> isRevealed (decryptedSchedules s loanId))"
proof -
  have "revealed_calculated s"
    unfolding assms by (rule run_revealed_calculated [OF revealed_calculated_constructor])
  then have "isRevealed (decryptedSchedules s loanId) \<longrightarrow>
             isCalculated (amortizationSchedules s loanId)"
    by (simp add: revealed_calculated_def)
  then show ?thesis
    by (auto simp: requestScheduleDecryption_def apply_tx_def split: if_splits)
qed

theorem requestScheduleDecryption_preconditions_witness:
  "borrower (encryptedLoans s_submitted 1) \<noteq> outsider_addr
   \<and> requestScheduleDecryption outsider_addr 7 s_submitted 1 = Inl Unauthorized
   \<and> borrower (encryptedLoans s_submitted 1) = borrower_addr
   \<and> \<not> isCalculated (amortizationSchedules s_submitted 1)
   \<and> requestScheduleDecryption borrower_addr 7 s_submitted 1 = Inl NotCalculated
   \<and> isRevealed (decryptedSchedules (run accept_all (constructor admin_addr)
        (setup_txs @ [(advisor_addr, CalculateAmortization 1),
                      (borrower_addr, RequestScheduleDecryption 7 1),
                      (outsider_addr, DecryptAmortizationSchedule 7 (abi_encode3 5 6 7) [])])) 1)
   \<and> requestScheduleDecryption borrower_addr 8 (run accept_all (constructor admin_addr)
        (setup_txs @ [(advisor_addr, CalculateAmortization 1),
                      (borrower_addr, RequestScheduleDecryption 7 1),
                      (outsider_addr, DecryptAmortizationSchedule 7 (abi_encode3 5 6 7) [])])) 1
       = Inl AlreadyRevealed"
proof -
  let ?ts = "setup_txs @ [(advisor_addr, CalculateAmortization 1),
                      (borrower_addr, RequestScheduleDecryption 7 1),
                      (outsider_addr, DecryptAmortizationSchedule 7 (abi_encode3 5 6 7) [])]"
  let ?s = "run accept_all (constructor admin_addr) ?ts"
  have a: "borrower (encryptedLoans s_submitted 1) \<noteq> outsider_addr"
    and b: "borrower (encryptedLoans s_submitted 1) = borrower_addr"
    and c: "\<not> isCalculated (amortizationSchedules s_submitted 1)"
    by (simp_all add: s_submitted_fields zero_schedule_def borrower_addr_def outsider_addr_def)
  have d: "borrower (encryptedLoans ?s 1) = borrower_addr"
    and e: "isRevealed (decryptedSchedules ?s 1)"
    by (simp_all add: fixture_defs eval_defs FHE_checkSignatures_def abi_decode3_encode3)
  note t1 = requestScheduleDecryption_preconditions [of s_submitted accept_all admin_addr setup_txs,
      OF s_submitted_def]
  note t2 = requestScheduleDecryption_preconditions [of ?s accept_all admin_addr ?ts, OF refl]
  from t1 [of 1 outsider_addr 7] a
  have f: "requestScheduleDecryption outsider_addr 7 s_submitted 1 = Inl Unauthorized" by simp
  from t1 [of 1 borrower_addr 7] b c
  have g: "requestScheduleDecryption borrower_addr 7 s_submitted 1 = Inl NotCalculated" by simp
  from t2 [of 1 borrower_addr 8] d e
  have h: "requestScheduleDecryption borrower_addr 8 ?s 1 = Inl AlreadyRevealed" by simp
  from a b c e f g h show ?thesis by simp
qed

section \<open>Unknown and resolved requests\<close>

lemma exec_request_absent:
  assumes "exec vf s t = Inr s'" "\<forall>l. snd t \<noteq> RequestScheduleDecryption requestId l"
  shows "requestToLoanId s' requestId = requestToLoanId s requestId"
proof (cases t)
  case (Pair sender c)
  with assms show ?thesis
    by (cases c) (auto simp: call_defs Let_def split: if_splits option.splits)
qed

lemma never_issued_unknown:
  "\<forall>t \<in> set ts. \<forall>l. snd t \<noteq> RequestScheduleDecryption requestId l \<Longrightarrow>
   requestToLoanId (run vf s ts) requestId = requestToLoanId s requestId"
proof (induction ts arbitrary: s)
  case Nil
  show ?case by simp
next
  case (Cons t ts)
  have "requestToLoanId (apply_tx vf s t) requestId = requestToLoanId s requestId"
    using Cons.prems
    by (cases "exec vf s t") (auto simp: apply_tx_def dest: exec_request_absent)
  with Cons show ?case by simp
qed

text \<open>
  Claim C6, as the contract has it. A request identifier that no
  \<open>requestScheduleDecryption\<close> of the history was given is rejected with
  \<open>UnknownRequest\<close>; a request that has been resolved is rejected with \<open>AlreadyRevealed\<close>;
  and every failed call leaves the storage as it was.
\<close>

theorem resolveDecryption_unknown_or_resolved:
  assumes "s = run vf (constructor deployer) ts"
  shows "((\<forall>t \<in> set ts. \<forall>l. snd t \<noteq> RequestScheduleDecryption requestId l) \<longrightarrow>
            decryptAmortizationSchedule vf sender s requestId cleartexts proof = Inl UnknownRequest)
    \<and> (\<forall>s'. decryptAmortizationSchedule vf sender s requestId cleartexts proof = Inr s' \<longrightarrow>
            decryptAmortizationSchedule vf sender s' requestId cleartexts proof = Inl AlreadyRevealed)
    \<and> (\<forall>e. decryptAmortizationSchedule vf sender s requestId cleartexts proof = Inl e \<longrightarrow>
            apply_tx vf s (sender, DecryptAmortizationSchedule requestId cleartexts proof) = s)"
proof -
  have "requestToLoanId s requestId = 0"
    if "\<forall>t \<in> set ts. \<forall>l. snd t \<noteq> RequestScheduleDecryption requestId l"
    unfolding assms using never_issued_unknown [OF that] by (simp add: constructor_def)
  then have a: "(\<forall>t \<in> set ts. \<forall>l. snd t \<noteq> RequestScheduleDecryption requestId l) \<longrightarrow>
            decryptAmortizationSchedule vf sender s requestId cleartexts proof = Inl UnknownRequest"
    by (simp add: decryptAmortizationSchedule_def)
  have b: "decryptAmortizationSchedule vf sender s' requestId cleartexts proof = Inl AlreadyRevealed"
    if "decryptAmortizationSchedule vf sender s requestId cleartexts proof = Inr s'" for s'
    by (rule resolve_revealed) (simp_all add: resolve_success_state [OF that])
  from a b show ?thesis by (simp add: apply_tx_def)
qed

theorem resolveDecryption_unknown_or_resolved_witness:
  "s_requested = run accept_all (constructor admin_addr)
       (setup_txs @ [(advisor_addr, CalculateAmortization 1),
                     (borrower_addr, RequestScheduleDecryption 7 1)])
   \<and> decryptAmortizationSchedule accept_all outsider_addr s_requested 8 (abi_encode3 1 2 3) []
       = Inl UnknownRequest
   \<and> apply_tx accept_all s_requested
        (outsider_addr, DecryptAmortizationSchedule 8 (abi_encode3 1 2 3) []) = s_requested
   \<and> (\<exists>s'. decryptAmortizationSchedule accept_all outsider_addr s_requested 7
              (abi_encode3 1 2 3) [] = Inr s'
         \<and> decryptAmortizationSchedule accept_all outsider_addr s' 7 (abi_encode3 1 2 3) []
              = Inl AlreadyRevealed)"
proof -
  let ?ts = "setup_txs @ [(advisor_addr, CalculateAmortization 1),
                          (borrower_addr, RequestScheduleDecryption 7 1)]"
  have r: "s_requested = run accept_all (constructor admin_addr) ?ts"
    by (simp add: s_requested_def s_calculated_def s_submitted_def setup_txs_def)
  have n: "\<forall>t \<in> set ?ts. \<forall>l. snd t \<noteq> RequestScheduleDecryption 8 l"
    by (simp add: setup_txs_def)
  note t = resolveDecryption_unknown_or_resolved [OF r]
  from t [of 8 outsider_addr "abi_encode3 1 2 3" "[]"] n
  have u: "decryptAmortizationSchedule accept_all outsider_addr s_requested 8 (abi_encode3 1 2 3) []
       = Inl UnknownRequest"
    and v: "apply_tx accept_all s_requested
        (outsider_addr, DecryptAmortizationSchedule 8 (abi_encode3 1 2 3) []) = s_requested"
    by simp_all
  have "\<exists>s'. decryptAmortizationSchedule accept_all outsider_addr s_requested 7
              (abi_encode3 1 2 3) [] = Inr s'"
    by (simp add: resolve_success_iff s_requested_fields zero_decrypted_def
        FHE_checkSignatures_def accept_all_def abi_decode3_encode3)
  then obtain s' where w: "decryptAmortizationSchedule accept_all outsider_addr s_requested 7
              (abi_encode3 1 2 3) [] = Inr s'" ..
  with t [of 7 outsider_addr "abi_encode3 1 2 3" "[]"]
  have "decryptAmortizationSchedule accept_all outsider_addr s' 7 (abi_encode3 1 2 3) []
              = Inl AlreadyRevealed"
    by simp
  with r u v w show ?thesis by blast
qed

text \<open>
  The claim as stated asks for \<open>UnknownRequest\<close> on a resolved request. The contract keeps
  the entry of \<open>requestToLoanId\<close> and answers the replay in the scenario with
  \<open>AlreadyRevealed\<close>.
\<close>

theorem resolveDecryption_resolved_counterexample:
  "decryptAmortizationSchedule (honest_oracle s_requested) outsider_addr s_revealed 7
     (oracle_cleartexts s_requested 1) [] = Inl AlreadyRevealed
   \<and> decryptAmortizationSchedule (honest_oracle s_requested) outsider_addr s_revealed 7
     (oracle_cleartexts s_requested 1) [] \<noteq> Inl UnknownRequest"
  by (simp add: decryptAmortizationSchedule_def s_revealed_fields s_requested_fields)

section \<open>A rejected proof\<close>

text \<open>
  Claim C7. When \<open>decryptAmortizationSchedule\<close> fails with \<open>InvalidProof\<close>, the storage is
  unchanged, and a later call for the same request with cleartexts and a proof that
  \<open>FHE.checkSignatures\<close> accepts (well-formed cleartexts, as the oracle sends them) succeeds
  and reveals the schedule, whoever sends it.
\<close>

theorem invalidProof_recoverable:
  assumes "decryptAmortizationSchedule vf sender s requestId cleartexts proof = Inl InvalidProof"
  shows "apply_tx vf s (sender, DecryptAmortizationSchedule requestId cleartexts proof) = s
    \<and> (\<forall>sender' cleartexts' proof'.
          FHE_checkSignatures vf requestId cleartexts' proof' \<and> abi_decode3 cleartexts' \<noteq> None \<longrightarrow>
          (\<exists>s'. decryptAmortizationSchedule vf sender' s requestId cleartexts' proof' = Inr s'
             \<and> isRevealed (decryptedSchedules s' (requestToLoanId s requestId))))"
proof -
  from assms have pre: "requestToLoanId s requestId \<noteq> 0"
    "isCalculated (amortizationSchedules s (requestToLoanId s requestId))"
    "\<not> isRevealed (decryptedSchedules s (requestToLoanId s requestId))"
    by (auto simp: decryptAmortizationSchedule_def Let_def split: if_splits option.splits)
  have "\<exists>s'. decryptAmortizationSchedule vf sender' s requestId cleartexts' proof' = Inr s'
             \<and> isRevealed (decryptedSchedules s' (requestToLoanId s requestId))"
    if "FHE_checkSignatures vf requestId cleartexts' proof'" "abi_decode3 cleartexts' \<noteq> None"
    for sender' cleartexts' proof'
  proof -
    from pre that
    obtain s' where ok: "decryptAmortizationSchedule vf sender' s requestId cleartexts' proof' = Inr s'"
      using resolve_success_iff [of vf sender' s requestId cleartexts' proof'] by blast
    with resolve_success_state(4) [OF ok] show ?thesis by blast
  qed
  with assms show ?thesis by (simp add: apply_tx_def)
qed

theorem invalidProof_recoverable_witness:
  "decryptAmortizationSchedule (honest_oracle s_requested) outsider_addr s_requested 7
      (abi_encode3 1 2 3) [] = Inl InvalidProof
   \<and> FHE_checkSignatures (honest_oracle s_requested) 7 (oracle_cleartexts s_requested 1) []
   \<and> abi_decode3 (oracle_cleartexts s_requested 1) \<noteq> None
   \<and> (\<exists>s'. decryptAmortizationSchedule (honest_oracle s_requested) outsider_addr s_requested 7
              (oracle_cleartexts s_requested 1) [] = Inr s'
         \<and> isRevealed (decryptedSchedules s' 1))"
proof -
  have ne: "abi_encode3 1 2 3 \<noteq> oracle_cleartexts s_requested 1"
  proof
    assume "abi_encode3 1 2 3 = oracle_cleartexts s_requested 1"
    then have "abi_decode3 (abi_encode3 1 2 3) = abi_decode3 (oracle_cleartexts s_requested 1)"
      by simp
    then show False
      by (simp add: abi_decode3_encode3 oracle_cleartexts_decode s_requested_fields)
  qed
  then have bad: "decryptAmortizationSchedule (honest_oracle s_requested) outsider_addr s_requested 7
      (abi_encode3 1 2 3) [] = Inl InvalidProof"
    by (simp add: decryptAmortizationSchedule_def FHE_checkSignatures_def honest_oracle_def
        s_requested_fields zero_decrypted_def)
  have good: "FHE_checkSignatures (honest_oracle s_requested) 7 (oracle_cleartexts s_requested 1) []"
    by (simp add: FHE_checkSignatures_def honest_oracle_def s_requested_fields)
  have dec: "abi_decode3 (oracle_cleartexts s_requested 1) \<noteq> None"
    by (simp add: oracle_cleartexts_decode)
  from invalidProof_recoverable [OF bad] good dec
  have "\<exists>s'. decryptAmortizationSchedule (honest_oracle s_requested) outsider_addr s_requested 7
              (oracle_cleartexts s_requested 1) [] = Inr s'
         \<and> isRevealed (decryptedSchedules s' (requestToLoanId s_requested 7))"
    by blast
  with bad good dec show ?thesis by (simp add: s_requested_fields)
qed

section \<open>Who may deliver the oracle's answer\<close>



section \<open>The persisted layout of the user interface\<close>

declare string_of_nat.simps [simp del]

lemma digit_char_in: "d < 10 \<Longrightarrow> digit_char d \<in> set ''0123456789''"
  unfolding digit_char_def by (rule nth_mem) simp

lemma string_of_nat_head:
  "string_of_nat n \<noteq> [] \<and> hd (string_of_nat n) \<in> set ''0123456789''"
proof (induction n rule: string_of_nat.induct)
  case (1 n)
  show ?case
  proof (cases "n < 10")
    case True
    then have "string_of_nat n = [digit_char n]" by (simp add: string_of_nat.simps)
    with digit_char_in [OF True] show ?thesis by simp
  next
    case False
    then have "string_of_nat n = string_of_nat (n div 10) @ [digit_char (n mod 10)]"
      by (subst string_of_nat.simps) simp
    with "1.IH" [OF False] show ?thesis by simp
  qed
qed

lemma scheduleId_not_keys: "''schedule_'' @ scheduleId env \<noteq> ''schedule_keys''"
proof
  assume "''schedule_'' @ scheduleId env = ''schedule_keys''"
  then have "scheduleId env = ''keys''" by simp
  then have "hd (string_of_nat (now_id env) @ ''-'' @ random_suffix env) = CHR ''k''"
    by (simp add: scheduleId_def)
  then have "hd (string_of_nat (now_id env)) = CHR ''k''"
    using string_of_nat_head [of "now_id env"] by simp
  with string_of_nat_head [of "now_id env"] show False by simp
qed

lemma scheduleData_is_record: "is_schedule_record (Doc (scheduleData env form encoded))"
  by (simp add: is_schedule_record_def scheduleData_def schedule_fields_def)

lemma submitSchedule_success:
  assumes "submitSchedule env form st = (st', TxSuccess)"
  shows "\<exists>encoded. btoa_json env form = Some encoded
            \<and> st' (''schedule_'' @ scheduleId env) = Doc (scheduleData env form encoded)"
    and "st' ''schedule_keys'' = Doc (JArr (listed_ids st @ [JStr (scheduleId env)]))"
    and "\<And>k. k \<noteq> ''schedule_keys'' \<Longrightarrow> k \<noteq> ''schedule_'' @ scheduleId env \<Longrightarrow> st' k = st k"
proof -
  from assms obtain encoded where e: "btoa_json env form = Some encoded"
    by (cases "btoa_json env form") (auto simp: submitSchedule_def split: if_splits)
  let ?st1 = "setData st (''schedule_'' @ scheduleId env) (Doc (scheduleData env form encoded))"
  have k: "?st1 ''schedule_keys'' = st ''schedule_keys''"
    using scheduleId_not_keys [of env] by (simp add: setData_def)
  have "st' = setData ?st1 ''schedule_keys'' (Doc (JArr (listed_ids st @ [JStr (scheduleId env)])))"
  proof (cases "st ''schedule_keys''")
    case Empty
    with assms e k show ?thesis
      by (simp add: submitSchedule_def Let_def getData_def listed_ids_def split: if_splits)
  next
    case Junk
    with assms e k show ?thesis
      by (simp add: submitSchedule_def Let_def getData_def listed_ids_def split: if_splits)
  next
    case (Doc j)
    with assms e k show ?thesis
      by (cases j)
         (simp_all add: submitSchedule_def Let_def getData_def listed_ids_def split: if_splits)
  qed
  with e scheduleId_not_keys [of env]
  show "\<exists>encoded. btoa_json env form = Some encoded
            \<and> st' (''schedule_'' @ scheduleId env) = Doc (scheduleData env form encoded)"
    and "st' ''schedule_keys'' = Doc (JArr (listed_ids st @ [JStr (scheduleId env)]))"
    and "\<And>k. k \<noteq> ''schedule_keys'' \<Longrightarrow> k \<noteq> ''schedule_'' @ scheduleId env \<Longrightarrow> st' k = st k"
    by (simp_all add: setData_def)
qed

lemma listed_ids_cases:
  "listed_ids st = [] \<or> st ''schedule_keys'' = Doc (JArr (listed_ids st))"
proof (cases "st ''schedule_keys''")
  case (Doc j)
  then show ?thesis by (cases j) (simp_all add: listed_ids_def)
qed (simp_all add: listed_ids_def)

lemma listed_ids_write_keys [simp]:
  "listed_ids (setData st ''schedule_keys'' (Doc (JArr ks))) = ks"
  by (simp add: listed_ids_def setData_def)

lemma listed_ids_write_other [simp]:
  "k \<noteq> ''schedule_keys'' \<Longrightarrow> listed_ids (setData st k r) = listed_ids st"
  by (simp add: listed_ids_def setData_def)

lemma keys_have_records_iff:
  "keys_have_records st \<longleftrightarrow>
     (\<forall>k \<in> set (listed_ids st). \<exists>i. k = JStr i \<and> is_schedule_record (st (''schedule_'' @ i)))"
  unfolding keys_have_records_def
proof (intro ball_cong refl)
  fix k
  show "(case k of JStr i \<Rightarrow> is_schedule_record (st (''schedule_'' @ i)) | _ \<Rightarrow> False)
          = (\<exists>i. k = JStr i \<and> is_schedule_record (st (''schedule_'' @ i)))"
    by (cases k) simp_all
qed

lemma key_list_is_no_record: "\<not> is_schedule_record (Doc (JArr ks))"
  by (simp add: is_schedule_record_def)

lemma record_write_keeps_layout:
  assumes "keys_have_records st" "is_schedule_record r" "k \<noteq> ''schedule_keys''"
  shows "keys_have_records (setData st k r)"
  unfolding keys_have_records_iff
proof
  fix x
  assume "x \<in> set (listed_ids (setData st k r))"
  with assms(3) have "x \<in> set (listed_ids st)" by simp
  with assms(1) obtain i where i: "x = JStr i" "is_schedule_record (st (''schedule_'' @ i))"
    unfolding keys_have_records_iff by blast
  with assms(2) have "is_schedule_record (setData st k r (''schedule_'' @ i))"
    by (simp add: setData_def)
  with i show "\<exists>i. x = JStr i \<and> is_schedule_record (setData st k r (''schedule_'' @ i))"
    by blast
qed

lemma keys_append_keeps_layout:
  assumes "keys_have_records st" "is_schedule_record (st (''schedule_'' @ i))"
    "''schedule_'' @ i \<noteq> ''schedule_keys''"
  shows "keys_have_records (setData st ''schedule_keys'' (Doc (JArr (listed_ids st @ [JStr i]))))"
    (is "keys_have_records ?st'")
  unfolding keys_have_records_iff
proof
  fix x
  assume "x \<in> set (listed_ids ?st')"
  then consider "x \<in> set (listed_ids st)" | "x = JStr i" by auto
  then show "\<exists>j. x = JStr j \<and> is_schedule_record (?st' (''schedule_'' @ j))"
  proof cases
    case 1
    with assms(1) obtain j where j: "x = JStr j" "is_schedule_record (st (''schedule_'' @ j))"
      unfolding keys_have_records_iff by blast
    from 1 have "listed_ids st \<noteq> []" by auto
    with listed_ids_cases [of st] have "st ''schedule_keys'' = Doc (JArr (listed_ids st))"
      by simp
    with j(2) have "''schedule_'' @ j \<noteq> ''schedule_keys''"
      using key_list_is_no_record by auto
    with j show ?thesis by (auto simp: setData_def)
  next
    case 2
    with assms(2,3) show ?thesis by (auto simp: setData_def)
  qed
qed

lemma submitSchedule_store:
  fixes st :: kvstore
  assumes "btoa_json env form = Some encoded"
  defines "st1 \<equiv> setData st (''schedule_'' @ scheduleId env) (Doc (scheduleData env form encoded))"
  shows "fst (submitSchedule env form st) = st
   \<or> fst (submitSchedule env form st) = st1
   \<or> fst (submitSchedule env form st) =
         setData st1 ''schedule_keys'' (Doc (JArr (listed_ids st1 @ [JStr (scheduleId env)])))"
proof (cases "st1 ''schedule_keys''")
  case Empty
  with assms show ?thesis
    by (auto simp: submitSchedule_def Let_def getData_def listed_ids_def)
next
  case Junk
  with assms show ?thesis
    by (auto simp: submitSchedule_def Let_def getData_def listed_ids_def)
next
  case (Doc j)
  with assms show ?thesis
    by (cases j) (auto simp: submitSchedule_def Let_def getData_def listed_ids_def)
qed

lemma submitSchedule_keeps_layout:
  assumes "keys_have_records st"
  shows "keys_have_records (fst (submitSchedule env form st))"
proof (cases "btoa_json env form")
  case None
  with assms show ?thesis by (simp add: submitSchedule_def)
next
  case (Some encoded)
  let ?key = "''schedule_'' @ scheduleId env"
  let ?st1 = "setData st ?key (Doc (scheduleData env form encoded))"
  have one: "keys_have_records ?st1"
    by (rule record_write_keeps_layout [OF assms scheduleData_is_record scheduleId_not_keys])
  have two: "keys_have_records
      (setData ?st1 ''schedule_keys'' (Doc (JArr (listed_ids ?st1 @ [JStr (scheduleId env)]))))"
    by (rule keys_append_keeps_layout [OF one _ scheduleId_not_keys])
       (simp add: setData_def scheduleData_is_record)
  from submitSchedule_store [OF Some, of st] assms one two show ?thesis
    by (elim disjE) simp_all
qed

lemma submit_all_keeps_layout:
  "keys_have_records st \<Longrightarrow> keys_have_records (submit_all subs st)"
proof (induction subs arbitrary: st)
  case Nil
  then show ?case by simp
next
  case (Cons a subs)
  obtain env form where a: "a = (env, form)" by (cases a)
  from Cons.prems have "keys_have_records (fst (submitSchedule env form st))"
    by (rule submitSchedule_keeps_layout)
  with Cons.IH a show ?case by simp
qed

lemma empty_store_layout: "keys_have_records empty_store"
  by (simp add: keys_have_records_def listed_ids_def empty_store_def)

lemma demo_id: "scheduleId demo_env = ''1700000000123-k3x9q2a''"
  by (simp add: scheduleId_def demo_env_def string_of_nat.simps digit_char_def)

lemma demo_env_fields:
  "provider_connected demo_env" "signer_contract demo_env" "tx1_accepted demo_env"
  "keys_read demo_env" "tx2_accepted demo_env" "btoa_json demo_env f = Some ''eyJ9''"
  by (simp_all add: demo_env_def)

lemma demo_submission:
  "submitSchedule demo_env demo_form empty_store =
     (setData (setData empty_store (''schedule_'' @ scheduleId demo_env)
                 (Doc (scheduleData demo_env demo_form ''eyJ9'')))
        ''schedule_keys'' (Doc (JArr [JStr (scheduleId demo_env)])),
      TxSuccess)"
  using scheduleId_not_keys [of demo_env]
  by (simp add: submitSchedule_def demo_env_fields Let_def getData_def setData_def
      empty_store_def)

text \<open>
  Claim C8. A successful \<open>submitSchedule\<close> stores under \<open>schedule_<id>\<close> a JSON object with
  exactly the fields \<open>data\<close>, \<open>timestamp\<close>, \<open>owner\<close>, \<open>loanAmount\<close>, \<open>term\<close> and
  \<open>status\<close>, and stores under \<open>schedule_keys\<close> the array of the identifiers listed before
  with the new identifier appended. Every outcome of \<open>submitSchedule\<close> keeps the layout:
  if every listed identifier had a record of that format before, it has one afterwards.
  Hence after any sequence of submissions on an empty store every listed identifier has its
  record.
\<close>

theorem submitSchedule_storage_contract:
  "(\<forall>st'. submitSchedule env form st = (st', TxSuccess) \<longrightarrow>
        is_schedule_record (st' (''schedule_'' @ scheduleId env))
      \<and> (\<exists>encoded. btoa_json env form = Some encoded
            \<and> st' (''schedule_'' @ scheduleId env) = Doc (scheduleData env form encoded))
      \<and> st' ''schedule_keys'' = Doc (JArr (listed_ids st @ [JStr (scheduleId env)])))
   \<and> (keys_have_records st \<longrightarrow> keys_have_records (fst (submitSchedule env form st)))
   \<and> keys_have_records (submit_all subs empty_store)"
proof -
  have "is_schedule_record (st' (''schedule_'' @ scheduleId env))
      \<and> (\<exists>encoded. btoa_json env form = Some encoded
            \<and> st' (''schedule_'' @ scheduleId env) = Doc (scheduleData env form encoded))
      \<and> st' ''schedule_keys'' = Doc (JArr (listed_ids st @ [JStr (scheduleId env)]))"
    if ok: "submitSchedule env form st = (st', TxSuccess)" for st'
    using submitSchedule_success(1,2) [OF ok] scheduleData_is_record by auto
  moreover have "keys_have_records st \<longrightarrow> keys_have_records (fst (submitSchedule env form st))"
    using submitSchedule_keeps_layout by blast
  moreover have "keys_have_records (submit_all subs empty_store)"
    by (rule submit_all_keeps_layout [OF empty_store_layout])
  ultimately show ?thesis by blast
qed

theorem submitSchedule_storage_contract_witness:
  "snd (submitSchedule demo_env demo_form empty_store) = TxSuccess
   \<and> scheduleId demo_env = ''1700000000123-k3x9q2a''
   \<and> is_schedule_record
        (fst (submitSchedule demo_env demo_form empty_store) ''schedule_1700000000123-k3x9q2a'')
   \<and> fst (submitSchedule demo_env demo_form empty_store) ''schedule_keys''
        = Doc (JArr [JStr ''1700000000123-k3x9q2a''])
   \<and> keys_have_records empty_store
   \<and> keys_have_records (fst (submitSchedule demo_env demo_form empty_store))"
proof -
  have ok: "submitSchedule demo_env demo_form empty_store =
              (fst (submitSchedule demo_env demo_form empty_store), TxSuccess)"
    by (simp add: demo_submission)
  have sn: "snd (submitSchedule demo_env demo_form empty_store) = TxSuccess"
    by (simp add: demo_submission)
  have l: "listed_ids empty_store = []"
    by (simp add: listed_ids_def empty_store_def)
  have e: "keys_have_records empty_store" by (rule empty_store_layout)
  note t = submitSchedule_storage_contract [of demo_env demo_form empty_store "[]"]
  from t ok
  have "is_schedule_record (fst (submitSchedule demo_env demo_form empty_store)
           (''schedule_'' @ scheduleId demo_env))"
    and "fst (submitSchedule demo_env demo_form empty_store) ''schedule_keys''
           = Doc (JArr (listed_ids empty_store @ [JStr (scheduleId demo_env)]))"
    by blast+
  moreover from t e
  have "keys_have_records (fst (submitSchedule demo_env demo_form empty_store))" by blast
  ultimately show ?thesis
    using sn e by (simp add: demo_id l)
qed

section \<open>Calculating a schedule for a loan that was never created\<close>







end
